theory Spec2Isabelle
  imports Main "HOL-Library.AList"
begin

section \<open>Values, dictionaries and the object heap\<close>

text \<open>
  The values that occur in query filters, update documents and stored documents.
  The type \<open>'dt\<close> stands for Python's \<open>datetime\<close>; an ObjectId is carried as its
  string form. A Python \<open>dict\<close> is an association list with distinct keys in insertion
  order: \<open>d[k] = v\<close> is \<open>AList.update k v d\<close> (replace in place, or append).
\<close>

datatype 'dt pyval =
    VNone
  | VBool bool
  | VInt int
  | VStr string
  | VTime 'dt
  | VOid string
  | VList "'dt pyval list"
  | VDict "(string \<times> 'dt pyval) list"

type_synonym 'dt dict = "(string \<times> 'dt pyval) list"

definition dict_contains :: "'dt dict \<Rightarrow> string \<Rightarrow> bool" where
  "dict_contains d k = (k \<in> fst ` set d)"

definition dict_set :: "'dt dict \<Rightarrow> string \<Rightarrow> 'dt pyval \<Rightarrow> 'dt dict" where
  "dict_set d k v = AList.update k v d"

text \<open>
  Dictionaries are mutable objects: a caller's filter and the dictionary a function
  returns may be the same object or not. The heap is the list of all dictionary objects,
  a reference is an index into it, and allocation appends.
\<close>

type_synonym 'dt heap = "'dt dict list"
type_synonym ref = nat

definition alloc :: "'dt heap \<Rightarrow> 'dt dict \<Rightarrow> 'dt heap \<times> ref" where
  "alloc h d = (h @ [d], length h)"

definition setitem :: "'dt heap \<Rightarrow> ref \<Rightarrow> string \<Rightarrow> 'dt pyval \<Rightarrow> 'dt heap" where
  "setitem h r k v = h[r := dict_set (h ! r) k v]"

definition opt_val :: "string option \<Rightarrow> 'dt pyval" where
  "opt_val s = (case s of None \<Rightarrow> VNone | Some x \<Rightarrow> VStr x)"

text \<open>Python's truth value of a value, as \<open>if x:\<close> tests it.\<close>

definition val_truthy :: "'dt pyval \<Rightarrow> bool" where
  "val_truthy v =
     (case v of
        VNone \<Rightarrow> False
      | VBool b \<Rightarrow> b
      | VInt i \<Rightarrow> i \<noteq> 0
      | VStr s \<Rightarrow> s \<noteq> []
      | VTime t \<Rightarrow> True
      | VOid x \<Rightarrow> True
      | VList xs \<Rightarrow> xs \<noteq> []
      | VDict kvs \<Rightarrow> kvs \<noteq> [])"

section \<open>The collection the document class talks to\<close>

text \<open>
  \<open>get_pymongo_collection()\<close> is the store driver. Each call runs on the store state
  \<open>'db\<close> and either returns a result or raises an exception \<open>'e\<close>.
\<close>

record update_result =
  matched_count :: nat
  modified_count :: nat

record delete_result =
  deleted_count :: nat

record ('dt, 'db, 'e) collection =
  coll_update_one :: "'dt dict \<Rightarrow> 'dt dict \<Rightarrow> 'db \<Rightarrow> ('e + update_result) \<times> 'db"
  coll_update_many :: "'dt dict \<Rightarrow> 'dt dict \<Rightarrow> 'db \<Rightarrow> ('e + update_result) \<times> 'db"
  coll_delete_one :: "'dt dict \<Rightarrow> 'db \<Rightarrow> ('e + delete_result) \<times> 'db"
  coll_delete_many :: "'dt dict \<Rightarrow> 'db \<Rightarrow> ('e + delete_result) \<times> 'db"

section \<open>DocumentBaseWithSoftDelete\<close>

text \<open>
  The in-memory document: its id (\<open>None\<close>, an ObjectId or another value) and the three
  soft delete fields. Subclasses add their business fields in the record extension.
\<close>

record 'dt document =
  doc_id :: "'dt pyval"
  deleted_at :: "'dt option"
  deleted_by :: "string option"
  deleted_id :: int

definition is_deleted :: "('dt, 'a) document_scheme \<Rightarrow> bool" where
  "is_deleted self = (deleted_at self \<noteq> None)"

definition apply_soft_delete_filter ::
  "'dt heap \<Rightarrow> ref option \<Rightarrow> bool \<Rightarrow> 'dt heap \<times> ref" where
  "apply_soft_delete_filter h filter_query include_deleted =
     (let (h1, result_filter) =
            (case filter_query of
               None \<Rightarrow> alloc h []
             | Some q \<Rightarrow> alloc h (h ! q));
          h2 = (if \<not> include_deleted \<and> \<not> dict_contains (h1 ! result_filter) ''deleted_at''
                then setitem h1 result_filter ''deleted_at'' VNone
                else h1)
      in (h2, result_filter))"

definition get_soft_delete_filter :: "bool \<Rightarrow> 'dt dict" where
  "get_soft_delete_filter include_deleted =
     (if include_deleted then [] else [(''deleted_at'', VNone)])"

text \<open>
  \<open>delete\<close>: \<open>now\<close> is the value of \<open>get_now_with_timezone()\<close> and \<open>py_hash x\<close> is
  \<open>hash(str(x))\<close>, one function for the life of a process (string hashes are salted
  per process). The id is any value and \<open>if self.id:\<close> tests its truth value, so an id
  that is \<open>None\<close>, 0 or empty gets no hash. The method returns \<open>None\<close>; the model
  returns the object as the call leaves it. An exception of the store call propagates
  before the object is touched. The session and the driver options, which are handed
  on as they are, are left out.
\<close>

definition delete ::
  "('dt, 'db, 'e) collection \<Rightarrow> ('dt pyval \<Rightarrow> int) \<Rightarrow> 'dt \<Rightarrow> string option \<Rightarrow>
   ('dt, 'a) document_scheme \<Rightarrow> 'db \<Rightarrow> ('e + ('dt, 'a) document_scheme) \<times> 'db" where
  "delete coll py_hash now by self db =
     (if is_deleted self then (Inr self, db)
      else
        let deleted_id_value =
              (if val_truthy (doc_id self) then \<bar>py_hash (doc_id self)\<bar> else 0)
        in case coll_update_one coll
                  [(''_id'', doc_id self)]
                  [(''$set'', VDict [(''deleted_at'', VTime now),
                                      (''deleted_by'', opt_val by),
                                      (''deleted_id'', VInt deleted_id_value)])] db of
             (Inl e, db') \<Rightarrow> (Inl e, db')
           | (Inr r, db') \<Rightarrow>
               (Inr (self\<lparr>deleted_at := Some now, deleted_by := by,
                           deleted_id := deleted_id_value\<rparr>), db'))"

definition restore ::
  "('dt, 'db, 'e) collection \<Rightarrow> ('dt, 'a) document_scheme \<Rightarrow> 'db \<Rightarrow>
   ('e + ('dt, 'a) document_scheme) \<times> 'db" where
  "restore coll self db =
     (if \<not> is_deleted self then (Inr self, db)
      else
        case coll_update_one coll
               [(''_id'', doc_id self)]
               [(''$set'', VDict [(''deleted_at'', VNone),
                                   (''deleted_by'', VNone),
                                   (''deleted_id'', VInt 0)])] db of
          (Inl e, db') \<Rightarrow> (Inl e, db')
        | (Inr r, db') \<Rightarrow>
            (Inr (self\<lparr>deleted_at := None, deleted_by := None, deleted_id := 0\<rparr>), db'))"

text \<open>
  \<open>hard_delete\<close> hands over to the parent class's \<open>delete\<close>, which is a parameter here.
\<close>

definition hard_delete ::
  "(('dt, 'a) document_scheme \<Rightarrow> 'db \<Rightarrow> ('e + delete_result option) \<times> 'db) \<Rightarrow>
   ('dt, 'a) document_scheme \<Rightarrow> 'db \<Rightarrow> ('e + delete_result option) \<times> 'db" where
  "hard_delete super_delete self db = super_delete self db"

text \<open>
  \<open>delete_many\<close>: \<open>timestamp_us now\<close> is \<open>int(now.timestamp() * 1000000)\<close>, a floating
  point computation of the datetime library.
\<close>

definition delete_many ::
  "('dt, 'db, 'e) collection \<Rightarrow> ('dt \<Rightarrow> int) \<Rightarrow> 'dt \<Rightarrow> 'dt heap \<Rightarrow> ref \<Rightarrow>
   string option \<Rightarrow> 'db \<Rightarrow> (('e + update_result) \<times> 'db) \<times> 'dt heap" where
  "delete_many coll timestamp_us now h filter_query by db =
     (let update_doc = [(''deleted_at'', VTime now),
                        (''deleted_by'', opt_val by),
                        (''deleted_id'', VInt (timestamp_us now))];
          (h', final_filter) = apply_soft_delete_filter h (Some filter_query) False
      in (coll_update_many coll (h' ! final_filter) [(''$set'', VDict update_doc)] db, h'))"

definition restore_many ::
  "('dt, 'db, 'e) collection \<Rightarrow> 'dt heap \<Rightarrow> ref \<Rightarrow> 'db \<Rightarrow>
   (('e + update_result) \<times> 'db) \<times> 'dt heap" where
  "restore_many coll h filter_query db =
     (let (h1, final_filter) = apply_soft_delete_filter h (Some filter_query) True;
          h2 = (if \<not> dict_contains (h1 ! final_filter) ''deleted_at''
                then setitem h1 final_filter ''deleted_at'' (VDict [(''$ne'', VNone)])
                else h1)
      in (coll_update_many coll (h2 ! final_filter)
            [(''$set'', VDict [(''deleted_at'', VNone),
                                (''deleted_by'', VNone),
                                (''deleted_id'', VInt 0)])] db, h2))"

definition hard_delete_many ::
  "('dt, 'db, 'e) collection \<Rightarrow> 'dt heap \<Rightarrow> ref \<Rightarrow> 'db \<Rightarrow> ('e + delete_result) \<times> 'db" where
  "hard_delete_many coll h filter_query db = coll_delete_many coll (h ! filter_query) db"

section \<open>A reference store\<close>

text \<open>
  The document store itself is outside the repository. This reference collection is a
  list of stored documents with the store's documented behaviour for the queries this
  code issues: a filter is the conjunction of its entries; a literal matches a field
  equal to it or an array field that contains it, and \<open>None\<close> also matches a missing
  field; \<open>{"$ne": v}\<close> is the
  negation of that; every other operator is left to the parameter \<open>sem\<close>. \<open>$set\<close>
  assigns fields. No call raises.
\<close>

type_synonym 'dt store = "'dt dict list"
type_synonym 'dt opsem = "'dt dict \<Rightarrow> string \<Rightarrow> 'dt pyval \<Rightarrow> bool"

definition field_eq :: "'dt pyval option \<Rightarrow> 'dt pyval \<Rightarrow> bool" where
  "field_eq fld v =
     (case fld of
        None \<Rightarrow> v = VNone
      | Some (VList xs) \<Rightarrow> VList xs = v \<or> v \<in> set xs
      | Some x \<Rightarrow> x = v)"

fun cond_matches :: "'dt opsem \<Rightarrow> 'dt dict \<Rightarrow> string \<Rightarrow> 'dt pyval \<Rightarrow> bool" where
  "cond_matches sem d k (VDict [(opr, w)]) =
     (if opr = ''$ne'' then \<not> field_eq (map_of d k) w else sem d k (VDict [(opr, w)]))"
| "cond_matches sem d k (VDict ops) = sem d k (VDict ops)"
| "cond_matches sem d k (VList vs) = sem d k (VList vs)"
| "cond_matches sem d k v = field_eq (map_of d k) v"

definition entry_matches :: "'dt opsem \<Rightarrow> 'dt dict \<Rightarrow> string \<times> 'dt pyval \<Rightarrow> bool" where
  "entry_matches sem d e =
     (case e of (k, v) \<Rightarrow>
        if k \<noteq> [] \<and> hd k = CHR ''$'' then sem d k v else cond_matches sem d k v)"

definition matches :: "'dt opsem \<Rightarrow> 'dt dict \<Rightarrow> 'dt dict \<Rightarrow> bool" where
  "matches sem d flt = list_all (entry_matches sem d) flt"

fun assign_all :: "'dt dict \<Rightarrow> 'dt dict \<Rightarrow> 'dt dict" where
  "assign_all d [] = d"
| "assign_all d ((k, v) # kvs) = assign_all (AList.update k v d) kvs"

definition apply_update :: "'dt dict \<Rightarrow> 'dt dict \<Rightarrow> 'dt dict" where
  "apply_update d upd =
     (case map_of upd ''$set'' of Some (VDict sets) \<Rightarrow> assign_all d sets | _ \<Rightarrow> d)"

fun update_first :: "'dt opsem \<Rightarrow> 'dt dict \<Rightarrow> 'dt dict \<Rightarrow> 'dt store \<Rightarrow> 'dt store" where
  "update_first sem flt upd [] = []"
| "update_first sem flt upd (d # ds) =
     (if matches sem d flt then apply_update d upd # ds
      else d # update_first sem flt upd ds)"

fun remove_first :: "'dt opsem \<Rightarrow> 'dt dict \<Rightarrow> 'dt store \<Rightarrow> 'dt store" where
  "remove_first sem flt [] = []"
| "remove_first sem flt (d # ds) =
     (if matches sem d flt then ds else d # remove_first sem flt ds)"

definition update_all :: "'dt opsem \<Rightarrow> 'dt dict \<Rightarrow> 'dt dict \<Rightarrow> 'dt store \<Rightarrow> 'dt store" where
  "update_all sem flt upd st = map (\<lambda>d. if matches sem d flt then apply_update d upd else d) st"

definition count_changed :: "'dt store \<Rightarrow> 'dt store \<Rightarrow> nat" where
  "count_changed st st' = length (filter (\<lambda>(d, d'). d \<noteq> d') (zip st st'))"

definition ref_collection :: "'dt opsem \<Rightarrow> ('dt, 'dt store, unit) collection" where
  "ref_collection sem =
     \<lparr> coll_update_one = (\<lambda>flt upd st.
          let st' = update_first sem flt upd st
          in (Inr \<lparr>matched_count = min 1 (length (filter (\<lambda>d. matches sem d flt) st)),
                   modified_count = count_changed st st'\<rparr>, st')),
       coll_update_many = (\<lambda>flt upd st.
          let st' = update_all sem flt upd st
          in (Inr \<lparr>matched_count = length (filter (\<lambda>d. matches sem d flt) st),
                   modified_count = count_changed st st'\<rparr>, st')),
       coll_delete_one = (\<lambda>flt st.
          (Inr \<lparr>deleted_count = min 1 (length (filter (\<lambda>d. matches sem d flt) st))\<rparr>,
           remove_first sem flt st)),
       coll_delete_many = (\<lambda>flt st.
          (Inr \<lparr>deleted_count = length (filter (\<lambda>d. matches sem d flt) st)\<rparr>,
           filter (\<lambda>d. \<not> matches sem d flt) st)) \<rparr>"

definition stored_live :: "'dt dict \<Rightarrow> bool" where
  "stored_live d = field_eq (map_of d ''deleted_at'') VNone"

definition ids_of :: "'dt store \<Rightarrow> 'dt pyval option list" where
  "ids_of st = map (\<lambda>d. map_of d ''_id'') st"

definition soft_delete_fields :: "string list" where
  "soft_delete_fields = [''deleted_at'', ''deleted_by'', ''deleted_id'']"

definition business_part :: "'dt dict \<Rightarrow> 'dt dict" where
  "business_part d = filter (\<lambda>kv. fst kv \<notin> set soft_delete_fields) d"

text \<open>
  The key of a stored document in a unique index over a business field and \<open>deleted_id\<close>.
\<close>

definition index_key :: "string \<Rightarrow> 'dt dict \<Rightarrow> 'dt pyval option \<times> 'dt pyval option" where
  "index_key bk d = (map_of d bk, map_of d ''deleted_id'')"

definition doc_inv :: "('dt, 'a) document_scheme \<Rightarrow> bool" where
  "doc_inv self = (is_deleted self \<or> deleted_id self = 0)"

definition stored_ok :: "'dt dict \<Rightarrow> bool" where
  "stored_ok d = (\<not> stored_live d \<or> map_of d ''deleted_id'' = Some (VInt 0))"

definition store_inv :: "'dt store \<Rightarrow> bool" where
  "store_inv st = list_all stored_ok st"

definition delete_set :: "'dt \<Rightarrow> string option \<Rightarrow> int \<Rightarrow> 'dt dict" where
  "delete_set now by n =
     [(''deleted_at'', VTime now), (''deleted_by'', opt_val by), (''deleted_id'', VInt n)]"

definition restore_set :: "'dt dict" where
  "restore_set = [(''deleted_at'', VNone), (''deleted_by'', VNone), (''deleted_id'', VInt 0)]"

section \<open>Sample data\<close>

text \<open>
  A small collection, two in-memory documents and stand-ins for the parameters, on which
  the statements below are evaluated.
\<close>

definition sample_doc :: "int document" where
  "sample_doc = \<lparr>doc_id = VOid ''a1'', deleted_at = None, deleted_by = None, deleted_id = 0\<rparr>"

definition sample_deleted_doc :: "int document" where
  "sample_deleted_doc =
     \<lparr>doc_id = VOid ''a1'', deleted_at = Some 5, deleted_by = Some ''alice'', deleted_id = 17\<rparr>"

text \<open>
  The sample hash sends two ids to values of opposite sign and every other id to 0.
\<close>

definition sample_hash :: "int pyval \<Rightarrow> int" where
  "sample_hash x = (if x = VOid ''a1'' then - 17 else if x = VOid ''c3'' then 17 else 0)"

definition sample_doc_c3 :: "int document" where
  "sample_doc_c3 = \<lparr>doc_id = VOid ''c3'', deleted_at = None, deleted_by = None, deleted_id = 0\<rparr>"

definition sample_doc_z0 :: "int document" where
  "sample_doc_z0 = \<lparr>doc_id = VOid ''z0'', deleted_at = None, deleted_by = None, deleted_id = 0\<rparr>"

definition sample_sem :: "int opsem" where
  "sample_sem d k v = False"

definition sample_store :: "int store" where
  "sample_store =
     [[(''_id'', VOid ''a1''), (''email'', VStr ''ann@example.com''),
       (''deleted_at'', VNone), (''deleted_by'', VNone), (''deleted_id'', VInt 0)],
      [(''_id'', VOid ''b2''), (''email'', VStr ''bob@example.com''),
       (''deleted_at'', VTime 5), (''deleted_by'', VStr ''alice''), (''deleted_id'', VInt 5000000)]]"

definition sample_timestamp_us :: "int \<Rightarrow> int" where
  "sample_timestamp_us t = t * 1000000"

definition sample_coll :: "(int, int store, unit) collection" where
  "sample_coll = ref_collection sample_sem"

lemmas sample_defs =
  sample_doc_def sample_deleted_doc_def sample_hash_def sample_sem_def sample_store_def
  sample_coll_def sample_timestamp_us_def

lemmas ref_eval =
  ref_collection_def Let_def is_deleted_def val_truthy_def opt_val_def matches_def
  entry_matches_def field_eq_def apply_update_def delete_set_def restore_set_def
  update_all_def count_changed_def stored_live_def dict_contains_def

definition sample_new_doc :: "int dict" where
  "sample_new_doc =
     [(''_id'', VOid ''c3''), (''email'', VStr ''ann@example.com''),
      (''deleted_at'', VNone), (''deleted_by'', VNone), (''deleted_id'', VInt 0)]"

text \<open>
  Two bulk deletions at the same clock reading: the first deletes the stored document of
  Ann; a new document with the same e-mail address is then stored and deleted in turn.
\<close>

definition sample_after_first :: "int store" where
  "sample_after_first =
     snd (fst (delete_many sample_coll sample_timestamp_us 9
                 [[(''email'', VStr ''ann@example.com'')]] 0 None [sample_store ! 0]))"

definition sample_after_second :: "int store" where
  "sample_after_second =
     snd (fst (delete_many sample_coll sample_timestamp_us 9
                 [[(''email'', VStr ''ann@example.com'')]] 0 None
                 (sample_after_first @ [sample_new_doc])))"

text \<open>One bulk deletion that matches two live documents.\<close>

definition sample_carol :: "int dict" where
  "sample_carol =
     [(''_id'', VOid ''d4''), (''email'', VStr ''carol@example.com''),
      (''deleted_at'', VNone), (''deleted_by'', VNone), (''deleted_id'', VInt 0)]"

definition sample_bulk :: "int store" where
  "sample_bulk =
     snd (fst (delete_many sample_coll sample_timestamp_us 9 [[]] 0 None
                 [sample_store ! 0, sample_carol]))"

text \<open>One document deleted, restored and deleted again at a later time.\<close>

definition sample_first_delete :: "(unit + int document) \<times> int store" where
  "sample_first_delete = delete sample_coll sample_hash 9 None sample_doc sample_store"

definition sample_restored :: "(unit + int document) \<times> int store" where
  "sample_restored =
     restore sample_coll (projr (fst sample_first_delete)) (snd sample_first_delete)"

definition sample_second_delete :: "(unit + int document) \<times> int store" where
  "sample_second_delete =
     delete sample_coll sample_hash 20 None (projr (fst sample_restored)) (snd sample_restored)"

section \<open>MemCellDeleteService\<close>

text \<open>
  The service holds the repository it was built with and never assigns to it. Its
  methods run on the store and write to the logger; both are threaded through. The type
  \<open>'e\<close> is the type of the exceptions that derive from \<open>Exception\<close>, the ones an
  \<open>except Exception\<close> clause catches. The repository (\<open>MemCellRawRepository\<close>), the
  constant \<open>MAGIC_ALL\<close> and \<open>ObjectId\<close> are outside the sources and are parameters;
  \<open>MemCell.delete_many\<close> is \<open>delete_many\<close> above on the collection of \<open>MemCell\<close>.
\<close>

datatype 'e log_entry =
    Info string
  | Warning string
  | Error string 'e

record ('db, 'e) repository =
  repo_delete_by_event_id :: "string \<Rightarrow> string option \<Rightarrow> 'db \<Rightarrow> ('e + bool) \<times> 'db"
  repo_delete_by_user_id :: "string \<Rightarrow> string option \<Rightarrow> 'db \<Rightarrow> ('e + nat) \<times> 'db"

record ('dt, 'db, 'e) service =
  memcell_repository :: "('db, 'e) repository"
  memcell_collection :: "('dt, 'db, 'e) collection"
  magic_all :: string
  object_id :: "string \<Rightarrow> 'e + string"
  timestamp_us_of :: "'dt \<Rightarrow> int"

record ('dt, 'db, 'e) world =
  store :: 'db
  heap :: "'dt heap"
  log :: "'e log_entry list"

definition logger :: "'e log_entry \<Rightarrow> ('dt, 'db, 'e) world \<Rightarrow> ('dt, 'db, 'e) world" where
  "logger entry w = w\<lparr>log := log w @ [entry]\<rparr>"

definition delete_by_event_id ::
  "('dt, 'db, 'e) service \<Rightarrow> string \<Rightarrow> string option \<Rightarrow> ('dt, 'db, 'e) world \<Rightarrow>
   ('e + bool) \<times> ('dt, 'db, 'e) world" where
  "delete_by_event_id self event_id by w =
     (let w1 = logger (Info ''Deleting MemCell by event_id'') w
      in case repo_delete_by_event_id (memcell_repository self) event_id by (store w1) of
           (Inr result, db') \<Rightarrow>
             (Inr result,
              logger (if result then Info ''Successfully deleted MemCell''
                      else Warning ''MemCell not found or already deleted'')
                (w1\<lparr>store := db'\<rparr>))
         | (Inl e, db') \<Rightarrow>
             (Inl e, logger (Error ''Failed to delete MemCell by event_id'' e) (w1\<lparr>store := db'\<rparr>)))"

definition delete_by_user_id ::
  "('dt, 'db, 'e) service \<Rightarrow> string \<Rightarrow> string option \<Rightarrow> ('dt, 'db, 'e) world \<Rightarrow>
   ('e + nat) \<times> ('dt, 'db, 'e) world" where
  "delete_by_user_id self user_id by w =
     (let w1 = logger (Info ''Deleting MemCells by user_id'') w
      in case repo_delete_by_user_id (memcell_repository self) user_id by (store w1) of
           (Inr count, db') \<Rightarrow>
             (Inr count,
              logger (Info ''Successfully deleted MemCells by user_id'') (w1\<lparr>store := db'\<rparr>))
         | (Inl e, db') \<Rightarrow>
             (Inl e, logger (Error ''Failed to delete MemCells by user_id'' e) (w1\<lparr>store := db'\<rparr>)))"

text \<open>
  \<open>MemCell.delete_many(filter, deleted_by=...)\<close> from the service: the dictionary literal
  is a new object, and \<open>now\<close> is the clock reading inside \<open>delete_many\<close>.
\<close>

definition memcell_delete_many ::
  "('dt, 'db, 'e) service \<Rightarrow> 'dt \<Rightarrow> 'dt dict \<Rightarrow> string option \<Rightarrow> ('dt, 'db, 'e) world \<Rightarrow>
   ('e + update_result) \<times> ('dt, 'db, 'e) world" where
  "memcell_delete_many self now filter_dict by w =
     (let (h1, q) = alloc (heap w) filter_dict;
          ((res, db'), h2) =
             delete_many (memcell_collection self) (timestamp_us_of self) now h1 q by (store w)
      in (res, w\<lparr>store := db', heap := h2\<rparr>))"

definition delete_by_group_id ::
  "('dt, 'db, 'e) service \<Rightarrow> 'dt \<Rightarrow> string \<Rightarrow> string option \<Rightarrow> ('dt, 'db, 'e) world \<Rightarrow>
   ('e + nat) \<times> ('dt, 'db, 'e) world" where
  "delete_by_group_id self now group_id by w =
     (let w1 = logger (Info ''Deleting MemCells by group_id'') w
      in case memcell_delete_many self now [(''group_id'', VStr group_id)] by w1 of
           (Inr result, w2) \<Rightarrow>
             (let count = modified_count result
              in (Inr count, logger (Info ''Successfully deleted MemCells by group_id'') w2))
         | (Inl e, w2) \<Rightarrow>
             (Inl e, logger (Error ''Failed to delete MemCells by group_id'' e) w2))"

record combined_result =
  filters :: "string list"
  count :: nat
  success :: bool
  error :: "string option"

text \<open>
  \<open>given x all\<close> is the test \<open>x and x != MAGIC_ALL\<close>: the value when it is a non-empty
  string other than \<open>MAGIC_ALL\<close>.
\<close>

definition given :: "string option \<Rightarrow> string \<Rightarrow> string option" where
  "given x all =
     (case x of None \<Rightarrow> None | Some s \<Rightarrow> if s \<noteq> [] \<and> s \<noteq> all then Some s else None)"

text \<open>
  The first half of \<open>delete_by_combined_criteria\<close>, which builds \<open>filter_dict\<close> and
  \<open>filters_used\<close>; an \<open>event_id\<close> that \<open>ObjectId\<close> rejects ends it with the exception caught
  there.
\<close>

definition build_criteria ::
  "('dt, 'db, 'e) service \<Rightarrow> string option \<Rightarrow> string option \<Rightarrow> string option \<Rightarrow>
   ('e \<times> string) + ('dt dict \<times> string list)" where
  "build_criteria self event_id user_id group_id =
     (let step0 =
            (case given event_id (magic_all self) of
               None \<Rightarrow> Inr ([], [])
             | Some ev \<Rightarrow>
                 (case object_id self ev of
                    Inl e \<Rightarrow> Inl (e, ev)
                  | Inr oid \<Rightarrow> Inr ([(''_id'', VOid oid)], [''event_id''])))
      in case step0 of
           Inl x \<Rightarrow> Inl x
         | Inr (f0, u0) \<Rightarrow>
             (let (f1, u1) =
                    (case given user_id (magic_all self) of
                       None \<Rightarrow> (f0, u0)
                     | Some u \<Rightarrow> (dict_set f0 ''user_id'' (VStr u), u0 @ [''user_id'']))
              in Inr (case given group_id (magic_all self) of
                        None \<Rightarrow> (f1, u1)
                      | Some g \<Rightarrow> (dict_set f1 ''group_id'' (VStr g), u1 @ [''group_id'']))))"

definition delete_by_combined_criteria ::
  "('dt, 'db, 'e) service \<Rightarrow> 'dt \<Rightarrow> string option \<Rightarrow> string option \<Rightarrow> string option \<Rightarrow>
   ('dt, 'db, 'e) world \<Rightarrow> ('e + combined_result) \<times> ('dt, 'db, 'e) world" where
  "delete_by_combined_criteria self now event_id user_id group_id w =
     (case build_criteria self event_id user_id group_id of
        Inl (e, ev) \<Rightarrow>
          (Inr \<lparr>filters = [], count = 0, success = False,
                error = Some (''Invalid event_id format: '' @ ev)\<rparr>,
           logger (Error ''Invalid event_id format'' e) w)
      | Inr (filter_dict, filters_used) \<Rightarrow>
          if filter_dict = []
          then (Inr \<lparr>filters = [], count = 0, success = False,
                     error = Some ''No deletion criteria provided''\<rparr>,
                logger (Warning ''No deletion criteria provided (all are MAGIC_ALL)'') w)
          else
            (let w1 = logger (Info ''Deleting MemCells with combined criteria'') w
             in (case memcell_delete_many self now filter_dict None w1 of
                   (Inr result, w2) \<Rightarrow>
                     (let count = modified_count result
                      in (Inr \<lparr>filters = filters_used, count = count,
                                success = (count > 0), error = None\<rparr>,
                          logger (Info ''Successfully deleted MemCells'') w2))
                 | (Inl e, w2) \<Rightarrow>
                     (Inl e,
                      logger (Error ''Failed to delete MemCells with combined criteria'' e) w2))))"

definition failing_coll :: "'e \<Rightarrow> ('dt, 'db, 'e) collection" where
  "failing_coll e =
     \<lparr> coll_update_one = (\<lambda>flt upd db. (Inl e, db)),
       coll_update_many = (\<lambda>flt upd db. (Inl e, db)),
       coll_delete_one = (\<lambda>flt db. (Inl e, db)),
       coll_delete_many = (\<lambda>flt db. (Inl e, db)) \<rparr>"

definition sample_service :: "(int, int store, string) service" where
  "sample_service =
     \<lparr> memcell_repository =
         \<lparr> repo_delete_by_event_id = (\<lambda>event_id by db. (Inl ''ServerSelectionTimeoutError'', db)),
           repo_delete_by_user_id = (\<lambda>user_id by db. (Inl ''ServerSelectionTimeoutError'', db)) \<rparr>,
       memcell_collection = failing_coll ''ServerSelectionTimeoutError'',
       magic_all = ''__all__'',
       object_id = (\<lambda>s. if length s = 24 then Inr s else Inl ''InvalidId''),
       timestamp_us_of = sample_timestamp_us \<rparr>"

definition sample_world :: "(int, int store, string) world" where
  "sample_world = \<lparr> store = sample_store, heap = [], log = [] \<rparr>"

section \<open>datetime_utils\<close>

text \<open>
  The argument of the converters is any Python object. \<open>cls\<close> records whether the type of
  the value is the class itself or a proper subclass of it (which \<open>isinstance\<close> accepts
  and \<open>type(x) is C\<close> does not); \<open>bool\<close>, the subclass of \<open>int\<close>, has its own constructor.
  \<open>'dt\<close> is \<open>datetime\<close>, \<open>'f\<close> is \<open>float\<close> and \<open>'o\<close> is every other object.
\<close>

datatype py_error =
    TypeError
  | ValueError
  | JSONDecodeError
  | OverflowError
  | OSError
  | AttributeError
  | RecursionError

datatype cls = Exact | Subclass

datatype ('dt, 'f, 'o) timeval =
    TNone
  | TStr cls string
  | TInt cls int
  | TFloat cls 'f
  | TBool bool
  | TDatetime cls 'dt
  | TOther 'o

datatype 'f num = NInt int | NFloat 'f

text \<open>
  The standard library is a parameter: parsing and printing of datetimes, time zone
  conversion into the configured zone (the module's \<open>timezone\<close>), and floating point
  arithmetic. A function that can raise returns the error.
\<close>

record ('dt, 'f, 'o) dtlib =
  fromisoformat :: "string \<Rightarrow> 'dt option"
  fromtimestamp :: "'f num \<Rightarrow> py_error + 'dt"
  tzinfo_is_none :: "'dt \<Rightarrow> bool"
  replace_tzinfo :: "'dt \<Rightarrow> 'dt"
  astimezone :: "'dt \<Rightarrow> py_error + 'dt"
  isoformat :: "'dt \<Rightarrow> string"
  timestamp :: "'dt \<Rightarrow> py_error + 'f"
  float_of_str :: "string \<Rightarrow> 'f option"
  int_div_1000 :: "int \<Rightarrow> py_error + 'f"
  float_div_1000 :: "'f \<Rightarrow> 'f"
  float_mul :: "'f \<Rightarrow> int \<Rightarrow> 'f"
  float_le_zero :: "'f \<Rightarrow> bool"
  float_ge_1e12 :: "'f \<Rightarrow> bool"
  int_of_float :: "'f \<Rightarrow> py_error + int"
  py_str :: "('dt, 'f, 'o) timeval \<Rightarrow> py_error + string"

text \<open>\<open>s.replace("Z", "+00:00") if s.endswith("Z") else s\<close>: every \<open>Z\<close> is replaced.\<close>

definition z_suffix :: "string \<Rightarrow> string" where
  "z_suffix s =
     (if s \<noteq> [] \<and> last s = CHR ''Z''
      then concat (map (\<lambda>c. if c = CHR ''Z'' then ''+00:00'' else [c]) s)
      else s)"

definition from_timestamp :: "('dt, 'f, 'o) dtlib \<Rightarrow> 'f num \<Rightarrow> py_error + 'dt" where
  "from_timestamp lib ts =
     (case ts of
        NInt i \<Rightarrow>
          if i \<ge> 10 ^ 12
          then (case int_div_1000 lib i of
                  Inl e \<Rightarrow> Inl e
                | Inr x \<Rightarrow> fromtimestamp lib (NFloat x))
          else fromtimestamp lib (NInt i)
      | NFloat x \<Rightarrow>
          if float_ge_1e12 lib x
          then fromtimestamp lib (NFloat (float_div_1000 lib x))
          else fromtimestamp lib (NFloat x))"

text \<open>
  The last two statements of \<open>to_iso_format\<close> and of \<open>from_iso_format\<close>: a naive datetime
  gets the configured zone attached, then the datetime is converted into that zone.
\<close>

definition ensure_timezone :: "('dt, 'f, 'o) dtlib \<Rightarrow> 'dt \<Rightarrow> 'dt" where
  "ensure_timezone lib dt = (if tzinfo_is_none lib dt then replace_tzinfo lib dt else dt)"

definition to_iso_format ::
  "('dt, 'f, 'o) dtlib \<Rightarrow> ('dt, 'f, 'o) timeval \<Rightarrow> py_error + string option" where
  "to_iso_format lib time_value =
     (let parsed =
            (case time_value of
               TNone \<Rightarrow> Inr None
             | TStr Exact s \<Rightarrow>
                 if s = [] then Inr None
                 else (case fromisoformat lib (z_suffix s) of
                         None \<Rightarrow> Inl ValueError
                       | Some dt \<Rightarrow> Inr (Some dt))
             | TInt Exact i \<Rightarrow>
                 if i \<le> 0 then Inl ValueError
                 else (case from_timestamp lib (NInt i) of
                         Inl e \<Rightarrow> Inl e
                       | Inr dt \<Rightarrow> Inr (Some dt))
             | TFloat Exact x \<Rightarrow>
                 if float_le_zero lib x then Inl ValueError
                 else (case from_timestamp lib (NFloat x) of
                         Inl e \<Rightarrow> Inl e
                       | Inr dt \<Rightarrow> Inr (Some dt))
             | TDatetime Exact dt \<Rightarrow> Inr (Some dt)
             | _ \<Rightarrow> Inl TypeError)
      in case parsed of
           Inl e \<Rightarrow> Inl e
         | Inr None \<Rightarrow> Inr None
         | Inr (Some dt) \<Rightarrow>
             (case astimezone lib (ensure_timezone lib dt) of
                Inl e \<Rightarrow> Inl e
              | Inr local \<Rightarrow> Inr (Some (isoformat lib local))))"

definition to_timestamp_ms :: "('dt, 'f, 'o) dtlib \<Rightarrow> 'dt \<Rightarrow> py_error + int" where
  "to_timestamp_ms lib dt =
     (case timestamp lib dt of
        Inl e \<Rightarrow> Inl e
      | Inr x \<Rightarrow> int_of_float lib (float_mul lib x 1000))"

text \<open>
  \<open>from_iso_format\<close>, called with its default \<open>target_timezone\<close>: every exception is
  caught and answered with the current time \<open>now\<close>.
\<close>

definition from_iso_format ::
  "('dt, 'f, 'o) dtlib \<Rightarrow> 'dt \<Rightarrow> ('dt, 'f, 'o) timeval \<Rightarrow> 'dt" where
  "from_iso_format lib now create_time =
     (let parsed =
            (case create_time of
               TDatetime c dt \<Rightarrow> Inr dt
             | TStr c s \<Rightarrow>
                 (case fromisoformat lib (z_suffix s) of
                    None \<Rightarrow> Inl ValueError
                  | Some dt \<Rightarrow> Inr dt)
             | _ \<Rightarrow>
                 (case py_str lib create_time of
                    Inl e \<Rightarrow> Inl e
                  | Inr s \<Rightarrow>
                      (case fromisoformat lib (z_suffix s) of
                         None \<Rightarrow> Inl ValueError
                       | Some dt \<Rightarrow> Inr dt)))
      in case parsed of
           Inl e \<Rightarrow> now
         | Inr dt \<Rightarrow>
             (case astimezone lib (ensure_timezone lib dt) of
                Inl e \<Rightarrow> now
              | Inr local \<Rightarrow> local))"

text \<open>
  \<open>to_timestamp_ms_universal\<close>: the outer \<open>except Exception\<close> turns every exception into
  the result 0. The function calls itself on the float a string parses to, and on the
  string form of any other object.
\<close>

fun rank :: "('dt, 'f, 'o) timeval \<Rightarrow> nat" where
  "rank (TOther x) = 2"
| "rank (TStr c s) = 1"
| "rank v = 0"

function to_timestamp_ms_universal ::
  "('dt, 'f, 'o) dtlib \<Rightarrow> 'dt \<Rightarrow> ('dt, 'f, 'o) timeval \<Rightarrow> int" where
  "to_timestamp_ms_universal lib now TNone = 0"
| "to_timestamp_ms_universal lib now (TInt c i) = (if i \<ge> 10 ^ 12 then i else i * 1000)"
| "to_timestamp_ms_universal lib now (TBool b) = (if b then 1 * 1000 else 0 * 1000)"
| "to_timestamp_ms_universal lib now (TFloat c x) =
     (if float_ge_1e12 lib x
      then (case int_of_float lib x of Inl e \<Rightarrow> 0 | Inr n \<Rightarrow> n)
      else (case int_of_float lib (float_mul lib x 1000) of Inl e \<Rightarrow> 0 | Inr n \<Rightarrow> n))"
| "to_timestamp_ms_universal lib now (TStr c s) =
     (case float_of_str lib s of
        Some x \<Rightarrow> to_timestamp_ms_universal lib now (TFloat Exact x)
      | None \<Rightarrow>
          (case to_timestamp_ms lib (from_iso_format lib now (TStr c s)) of
             Inl e \<Rightarrow> 0
           | Inr n \<Rightarrow> n))"
| "to_timestamp_ms_universal lib now (TDatetime c dt) =
     (case to_timestamp_ms lib dt of Inl e \<Rightarrow> 0 | Inr n \<Rightarrow> n)"
| "to_timestamp_ms_universal lib now (TOther x) =
     (case py_str lib (TOther x) of
        Inl e \<Rightarrow> 0
      | Inr s \<Rightarrow> to_timestamp_ms_universal lib now (TStr Exact s))"
  by pat_completeness auto
termination
  by (relation "measure (\<lambda>(lib, now, v). rank v)") auto

text \<open>
  A stand-in for the library on which statements are evaluated. A datetime is a number of
  seconds and a flag: for an aware datetime the seconds since the epoch, for a naive one
  its wall clock reading; the configured zone is eight hours ahead of UTC. Floats are
  whole numbers. Three ISO strings and one numeric string are known, and times after the
  year 9999 are out of range.
\<close>

definition sample_lib :: "(int \<times> bool, int, unit) dtlib" where
  "sample_lib =
     \<lparr> fromisoformat = (\<lambda>s. if s = ''2025-09-16T20:20:06+08:00'' then Some (1758025206, True)
                            else if s = ''2025-09-16T12:20:06+00:00'' then Some (1758025206, True)
                            else if s = ''2025-09-16T20:20:06'' then Some (1758054006, False)
                            else None),
       fromtimestamp = (\<lambda>n. let t = (case n of NInt i \<Rightarrow> i | NFloat x \<Rightarrow> x)
                            in if t > 253402300799 then Inl ValueError else Inr (t, True)),
       tzinfo_is_none = (\<lambda>dt. \<not> snd dt),
       replace_tzinfo = (\<lambda>dt. (fst dt - 28800, True)),
       astimezone = (\<lambda>dt. if fst dt > 253402271999 then Inl OverflowError
                         else Inr (fst dt, True)),
       isoformat = (\<lambda>dt. if fst dt = 1758025206 then ''2025-09-16T20:20:06+08:00''
                        else ''other''),
       timestamp = (\<lambda>dt. Inr (fst dt)),
       float_of_str = (\<lambda>s. if s = ''1758025206'' then Some 1758025206 else None),
       int_div_1000 = (\<lambda>i. Inr (i div 1000)),
       float_div_1000 = (\<lambda>x. x div 1000),
       float_mul = (\<lambda>x k. x * k),
       float_le_zero = (\<lambda>x. x \<le> 0),
       float_ge_1e12 = (\<lambda>x. x \<ge> 10 ^ 12),
       int_of_float = (\<lambda>x. Inr x),
       py_str = (\<lambda>v. Inr ''object'') \<rparr>"

definition sample_now :: "int \<times> bool" where
  "sample_now = (1762250000, True)"

section \<open>The memory request log listener\<close>

text \<open>
  A parsed JSON value; \<open>'n\<close> is the type of JSON numbers. URL and query string parsing
  and the JSON decoder are the standard library's and are parameters. For the two URL
  functions, whose every exception the listener catches, \<open>None\<close> stands for the exception
  they raise; the decoder returns its exception, since \<open>_parse_body\<close> catches only
  \<open>JSONDecodeError\<close> and \<open>TypeError\<close>. \<open>json_str\<close> is \<open>str\<close> on a value that is not a string.
\<close>

datatype 'n json =
    JNull
  | JBool bool
  | JNum 'n
  | JStr string
  | JArr "'n json list"
  | JObj "(string \<times> 'n json) list"

record 'n weblib =
  urlparse :: "string \<Rightarrow> (string \<times> string) option"
  parse_qs :: "string \<Rightarrow> (string \<times> string list) list option"
  json_loads :: "string \<Rightarrow> py_error + 'n json"
  num_truthy :: "'n \<Rightarrow> bool"
  json_str :: "'n json \<Rightarrow> string"

definition truthy :: "'n weblib \<Rightarrow> 'n json \<Rightarrow> bool" where
  "truthy lib v =
     (case v of
        JNull \<Rightarrow> False
      | JBool b \<Rightarrow> b
      | JNum n \<Rightarrow> num_truthy lib n
      | JStr s \<Rightarrow> s \<noteq> []
      | JArr xs \<Rightarrow> xs \<noteq> []
      | JObj kvs \<Rightarrow> kvs \<noteq> [])"

definition str_of_json :: "'n weblib \<Rightarrow> 'n json \<Rightarrow> string" where
  "str_of_json lib v = (case v of JStr s \<Rightarrow> s | _ \<Rightarrow> json_str lib v)"

text \<open>
  \<open>body_parsed.get(key)\<close>: only a JSON object is a \<open>dict\<close>; on any other value the
  attribute lookup raises \<open>AttributeError\<close>. A missing key gives \<open>None\<close>, as a JSON null does.
\<close>

definition body_get :: "'n json \<Rightarrow> string \<Rightarrow> py_error + 'n json" where
  "body_get b key =
     (case b of
        JObj kvs \<Rightarrow> Inr (case map_of kvs key of None \<Rightarrow> JNull | Some v \<Rightarrow> v)
      | _ \<Rightarrow> Inl AttributeError)"

text \<open>\<open>a or b\<close> on optional strings: \<open>a\<close> when it is a non-empty string, else \<open>b\<close>.\<close>

definition py_or :: "string option \<Rightarrow> string option \<Rightarrow> string option" where
  "py_or a b = (case a of None \<Rightarrow> b | Some s \<Rightarrow> if s \<noteq> [] then a else b)"

definition MEMORIES_PATH_PREFIX :: string where
  "MEMORIES_PATH_PREFIX = ''/api/v1/memories''"

definition is_memories_request :: "'n weblib \<Rightarrow> string \<Rightarrow> bool" where
  "is_memories_request lib url =
     (case urlparse lib url of
        None \<Rightarrow> False
      | Some (path, query) \<Rightarrow>
          take (length MEMORIES_PATH_PREFIX) path = MEMORIES_PATH_PREFIX)"

definition parse_body :: "'n weblib \<Rightarrow> string option \<Rightarrow> py_error + 'n json option" where
  "parse_body lib body =
     (case body of
        None \<Rightarrow> Inr None
      | Some b \<Rightarrow>
          if b = [] then Inr None
          else (case json_loads lib b of
                  Inr v \<Rightarrow> Inr (Some v)
                | Inl JSONDecodeError \<Rightarrow> Inr None
                | Inl TypeError \<Rightarrow> Inr None
                | Inl e \<Rightarrow> Inl e))"

definition extract_group_id ::
  "'n weblib \<Rightarrow> string \<Rightarrow> 'n json option \<Rightarrow> py_error + string option" where
  "extract_group_id lib url body_parsed =
     (let from_body =
            (case body_parsed of
               None \<Rightarrow> Inr None
             | Some b \<Rightarrow>
                 if truthy lib b
                 then (case body_get b ''group_id'' of
                         Inl e \<Rightarrow> Inl e
                       | Inr group_id \<Rightarrow>
                           if truthy lib group_id then Inr (Some (str_of_json lib group_id))
                           else Inr None)
                 else Inr None)
      in case from_body of
           Inl e \<Rightarrow> Inl e
         | Inr (Some g) \<Rightarrow> Inr (Some g)
         | Inr None \<Rightarrow>
             Inr (case urlparse lib url of
                    None \<Rightarrow> None
                  | Some (path, query) \<Rightarrow>
                      (case parse_qs lib query of
                         None \<Rightarrow> None
                       | Some query_params \<Rightarrow>
                           (case map_of query_params ''group_id'' of
                              None \<Rightarrow> None
                            | Some [] \<Rightarrow> None
                            | Some (g # gs) \<Rightarrow> Some g))))"

definition extract_user_id ::
  "'n weblib \<Rightarrow> string \<Rightarrow> 'n json option \<Rightarrow> (string \<times> string) list \<Rightarrow>
   py_error + string option" where
  "extract_user_id lib url body_parsed hdrs =
     (let from_body =
            (case body_parsed of
               None \<Rightarrow> Inr None
             | Some b \<Rightarrow>
                 if truthy lib b
                 then (case body_get b ''user_id'' of
                         Inl e \<Rightarrow> Inl e
                       | Inr u \<Rightarrow>
                           if truthy lib u then Inr (Some (str_of_json lib u))
                           else (case body_get b ''sender'' of
                                   Inl e \<Rightarrow> Inl e
                                 | Inr s \<Rightarrow>
                                     if truthy lib s then Inr (Some (str_of_json lib s))
                                     else Inr None))
                 else Inr None)
      in case from_body of
           Inl e \<Rightarrow> Inl e
         | Inr (Some u) \<Rightarrow> Inr (Some u)
         | Inr None \<Rightarrow>
             (let from_query =
                    (case urlparse lib url of
                       None \<Rightarrow> None
                     | Some (path, query) \<Rightarrow>
                         (case parse_qs lib query of
                            None \<Rightarrow> None
                          | Some query_params \<Rightarrow>
                              (case map_of query_params ''user_id'' of
                                 None \<Rightarrow> None
                               | Some [] \<Rightarrow> None
                               | Some (u # us) \<Rightarrow> Some u)))
              in case from_query of
                   Some u \<Rightarrow> Inr (Some u)
                 | None \<Rightarrow>
                     Inr (case py_or (map_of hdrs ''X-User-Id'') (map_of hdrs ''x-user-id'') of
                            None \<Rightarrow> None
                          | Some u \<Rightarrow> if u \<noteq> [] then Some u else None)))"

definition extract_request_id :: "(string \<times> string) list \<Rightarrow> string option" where
  "extract_request_id hdrs = py_or (map_of hdrs ''X-Request-Id'') (map_of hdrs ''x-request-id'')"

definition extract_tenant_from_headers ::
  "(string \<times> string) list \<Rightarrow> string option \<times> string option" where
  "extract_tenant_from_headers hdrs =
     (py_or (map_of hdrs ''X-Organization-Id'') (map_of hdrs ''x-organization-id''),
      py_or (map_of hdrs ''X-Space-Id'') (map_of hdrs ''x-space-id''))"

text \<open>
  The event and the document. \<open>RequestHistoryEvent\<close>, \<open>MemoryRequestLog\<close>, its repository
  and \<open>extract_message_core_fields\<close> are outside the sources: the event and the document
  carry the fields the listener reads and writes, \<open>'m\<close> is what
  \<open>extract_message_core_fields\<close> returns (the listener copies seven entries of it), and
  building and saving the document is the parameter \<open>save\<close>, which answers with the
  exception when there is one.
\<close>

record request_history_event =
  ev_url :: string
  ev_body :: "string option"
  ev_headers :: "(string \<times> string) list"
  ev_event_id :: "string option"
  ev_version :: "string option"
  ev_endpoint_name :: "string option"
  ev_method :: "string option"

datatype event = RequestHistoryEvent request_history_event | OtherEvent

record ('n, 'm) memory_request_log =
  log_group_id :: string
  log_request_id :: string
  log_user_id :: "string option"
  log_message_fields :: 'm
  log_raw_input :: "'n json option"
  log_raw_input_str :: "string option"
  log_version :: "string option"
  log_endpoint_name :: "string option"
  log_method :: "string option"
  log_url :: string
  log_organization_id :: "string option"
  log_space_id :: "string option"
  log_event_id :: "string option"

datatype ('n, 'm) outcome =
    Ignored
  | Skipped
  | Failed py_error
  | Saved "('n, 'm) memory_request_log"

definition save_to_mongo ::
  "'n weblib \<Rightarrow> ('n json option \<Rightarrow> py_error + 'm) \<Rightarrow>
   (('n, 'm) memory_request_log \<Rightarrow> py_error option) \<Rightarrow>
   request_history_event \<Rightarrow> ('n, 'm) outcome" where
  "save_to_mongo lib extract_message_core_fields save ev =
     (case parse_body lib (ev_body ev) of
        Inl e \<Rightarrow> Failed e
      | Inr body_parsed \<Rightarrow>
         (case extract_group_id lib (ev_url ev) body_parsed of
            Inl e \<Rightarrow> Failed e
          | Inr group_id \<Rightarrow>
             (let request_id = extract_request_id (ev_headers ev)
              in case extract_user_id lib (ev_url ev) body_parsed (ev_headers ev) of
                   Inl e \<Rightarrow> Failed e
                 | Inr user_id \<Rightarrow>
                     (let (org_id, space_id) = extract_tenant_from_headers (ev_headers ev)
                      in case extract_message_core_fields body_parsed of
                           Inl e \<Rightarrow> Failed e
                         | Inr message_fields \<Rightarrow>
                             (case py_or group_id None of
                                None \<Rightarrow> Skipped
                              | Some g \<Rightarrow>
                                  (let request_id' =
                                         (case py_or request_id
                                                 (py_or (ev_event_id ev) (Some ''unknown'')) of
                                            None \<Rightarrow> ''unknown''
                                          | Some r \<Rightarrow> r);
                                       memory_request_log =
                                         \<lparr> log_group_id = g,
                                           log_request_id = request_id',
                                           log_user_id = user_id,
                                           log_message_fields = message_fields,
                                           log_raw_input = body_parsed,
                                           log_raw_input_str = ev_body ev,
                                           log_version = ev_version ev,
                                           log_endpoint_name = ev_endpoint_name ev,
                                           log_method = ev_method ev,
                                           log_url = ev_url ev,
                                           log_organization_id = org_id,
                                           log_space_id = space_id,
                                           log_event_id = ev_event_id ev \<rparr>
                                   in case save memory_request_log of
                                        Some e \<Rightarrow> Failed e
                                      | None \<Rightarrow> Saved memory_request_log))))))"

definition on_event ::
  "'n weblib \<Rightarrow> ('n json option \<Rightarrow> py_error + 'm) \<Rightarrow>
   (('n, 'm) memory_request_log \<Rightarrow> py_error option) \<Rightarrow> event \<Rightarrow> ('n, 'm) outcome" where
  "on_event lib extract_message_core_fields save event =
     (case event of
        OtherEvent \<Rightarrow> Ignored
      | RequestHistoryEvent ev \<Rightarrow>
          if \<not> is_memories_request lib (ev_url ev) then Skipped
          else save_to_mongo lib extract_message_core_fields save ev)"

text \<open>
  A stand-in for the library: URLs are a path and, after a question mark, a query; one
  query string and two bodies are known.
\<close>

definition sample_weblib :: "int weblib" where
  "sample_weblib =
     \<lparr> urlparse = (\<lambda>u. Some (takeWhile (\<lambda>c. c \<noteq> CHR ''?'') u,
                               drop 1 (dropWhile (\<lambda>c. c \<noteq> CHR ''?'') u))),
       parse_qs = (\<lambda>q. if q = ''group_id=g1'' then Some [(''group_id'', [''g1''])]
                        else Some []),
       json_loads = (\<lambda>b. if b = ''[1]'' then Inr (JArr [JNum 1])
                          else if b = ''{\"sender\": \"u7\"}''
                               then Inr (JObj [(''sender'', JStr ''u7'')])
                          else Inl JSONDecodeError),
       num_truthy = (\<lambda>n. n \<noteq> 0),
       json_str = (\<lambda>v. ''other'') \<rparr>"

definition sample_event :: "string option \<Rightarrow> event" where
  "sample_event body =
     RequestHistoryEvent
       \<lparr> ev_url = ''/api/v1/memories?group_id=g1'',
         ev_body = body,
         ev_headers = [(''X-User-Id'', ''u9'')],
         ev_event_id = Some ''evt-1'',
         ev_version = None,
         ev_endpoint_name = None,
         ev_method = Some ''POST'' \<rparr>"

section \<open>Properties of the soft delete mixin\<close>

subsection \<open>Auxiliary facts\<close>

lemma update_absent: "k \<notin> fst ` set xs \<Longrightarrow> AList.update k v xs = xs @ [(k, v)]"
  by (induction xs) auto

lemma apply_soft_delete_filter_eq:
  "apply_soft_delete_filter h filter_query include_deleted =
     (h @ [let given = (case filter_query of None \<Rightarrow> [] | Some q \<Rightarrow> h ! q)
           in if \<not> include_deleted \<and> \<not> dict_contains given ''deleted_at''
              then given @ [(''deleted_at'', VNone)] else given],
      length h)"
  by (cases filter_query)
     (simp_all add: apply_soft_delete_filter_def alloc_def setitem_def dict_set_def
        dict_contains_def update_absent Let_def)

lemma business_part_update:
  "k \<in> set soft_delete_fields \<Longrightarrow> business_part (AList.update k v d) = business_part d"
  by (induction d) (auto simp: business_part_def)

lemma business_part_assign_all:
  "fst ` set kvs \<subseteq> set soft_delete_fields \<Longrightarrow>
   business_part (assign_all d kvs) = business_part d"
  by (induction d kvs rule: assign_all.induct) (auto simp: business_part_update)

lemma map_of_business_part:
  "k \<notin> set soft_delete_fields \<Longrightarrow> map_of (business_part d) k = map_of d k"
  by (induction d) (auto simp: business_part_def)

lemma business_part_update_first:
  "fst ` set sets \<subseteq> set soft_delete_fields \<Longrightarrow>
   map business_part (update_first sem flt [(''$set'', VDict sets)] st) = map business_part st"
  by (induction st) (auto simp: apply_update_def business_part_assign_all)

lemma business_part_update_all:
  "fst ` set sets \<subseteq> set soft_delete_fields \<Longrightarrow>
   map business_part (update_all sem flt [(''$set'', VDict sets)] st) = map business_part st"
  by (induction st) (auto simp: update_all_def apply_update_def business_part_assign_all)

lemma ids_of_business_part: "ids_of (map business_part st) = ids_of st"
  by (induction st) (auto simp: ids_of_def map_of_business_part soft_delete_fields_def)

lemma matches_append:
  "matches sem d (flt @ flt') = (matches sem d flt \<and> matches sem d flt')"
  by (simp add: matches_def)

lemma matches_live: "matches sem d [(''deleted_at'', VNone)] = stored_live d"
  by (simp add: matches_def entry_matches_def stored_live_def)

lemma ref_update_one:
  "\<exists>r. coll_update_one (ref_collection sem) flt upd st = (Inr r, update_first sem flt upd st)"
  by (simp add: ref_collection_def Let_def)

lemma ref_update_many:
  "\<exists>r. coll_update_many (ref_collection sem) flt upd st = (Inr r, update_all sem flt upd st)"
  by (simp add: ref_collection_def Let_def)

lemma delete_live:
  "\<not> is_deleted self \<Longrightarrow>
   delete coll py_hash now by self db =
     (case coll_update_one coll [(''_id'', doc_id self)]
             [(''$set'', VDict (delete_set now by
                (if val_truthy (doc_id self) then \<bar>py_hash (doc_id self)\<bar> else 0)))] db of
        (Inl e, db') \<Rightarrow> (Inl e, db')
      | (Inr r, db') \<Rightarrow>
          (Inr (self\<lparr>deleted_at := Some now, deleted_by := by,
                      deleted_id := (if val_truthy (doc_id self) then \<bar>py_hash (doc_id self)\<bar> else 0)\<rparr>),
           db'))"
  by (simp add: delete_def delete_set_def Let_def)

lemma restore_deleted:
  "is_deleted self \<Longrightarrow>
   restore coll self db =
     (case coll_update_one coll [(''_id'', doc_id self)]
             [(''$set'', VDict restore_set)] db of
        (Inl e, db') \<Rightarrow> (Inl e, db')
      | (Inr r, db') \<Rightarrow>
          (Inr (self\<lparr>deleted_at := None, deleted_by := None, deleted_id := 0\<rparr>), db'))"
  by (simp add: restore_def restore_set_def)

lemma delete_many_eq:
  "delete_many coll timestamp_us now h q by db =
     (let final = (if dict_contains (h ! q) ''deleted_at'' then h ! q
                   else h ! q @ [(''deleted_at'', VNone)])
      in (coll_update_many coll final
            [(''$set'', VDict (delete_set now by (timestamp_us now)))] db, h @ [final]))"
  by (simp add: delete_many_def apply_soft_delete_filter_eq delete_set_def Let_def)

lemma restore_many_eq:
  "restore_many coll h q db =
     (let final = (if dict_contains (h ! q) ''deleted_at'' then h ! q
                   else h ! q @ [(''deleted_at'', VDict [(''$ne'', VNone)])])
      in (coll_update_many coll final [(''$set'', VDict restore_set)] db, h @ [final]))"
  by (simp add: restore_many_def apply_soft_delete_filter_eq restore_set_def Let_def
      setitem_def dict_set_def update_absent dict_contains_def)

lemma delete_set_keys: "fst ` set (delete_set now by n) \<subseteq> set soft_delete_fields"
  by (simp add: delete_set_def soft_delete_fields_def)

lemma restore_set_keys: "fst ` set restore_set \<subseteq> set soft_delete_fields"
  by (simp add: restore_set_def soft_delete_fields_def)

lemma ids_of_update_first:
  "fst ` set sets \<subseteq> set soft_delete_fields \<Longrightarrow>
   ids_of (update_first sem flt [(''$set'', VDict sets)] st) = ids_of st"
  using business_part_update_first [of sets sem flt st] ids_of_business_part
  by metis

lemma ids_of_update_all:
  "fst ` set sets \<subseteq> set soft_delete_fields \<Longrightarrow>
   ids_of (update_all sem flt [(''$set'', VDict sets)] st) = ids_of st"
  using business_part_update_all [of sets sem flt st] ids_of_business_part
  by metis

lemma length_update_first: "length (update_first sem flt upd st) = length st"
  by (induction st) auto

lemma delete_ref:
  "\<not> is_deleted self \<Longrightarrow>
   delete (ref_collection sem) py_hash now by self st =
     (Inr (self\<lparr>deleted_at := Some now, deleted_by := by,
                deleted_id := (if val_truthy (doc_id self) then \<bar>py_hash (doc_id self)\<bar> else 0)\<rparr>),
      update_first sem [(''_id'', doc_id self)]
        [(''$set'', VDict (delete_set now by
            (if val_truthy (doc_id self) then \<bar>py_hash (doc_id self)\<bar> else 0)))] st)"
  by (simp add: delete_live) (simp add: ref_collection_def Let_def)

lemma restore_ref:
  "is_deleted self \<Longrightarrow>
   restore (ref_collection sem) self st =
     (Inr (self\<lparr>deleted_at := None, deleted_by := None, deleted_id := 0\<rparr>),
      update_first sem [(''_id'', doc_id self)] [(''$set'', VDict restore_set)] st)"
  by (simp add: restore_deleted) (simp add: ref_collection_def Let_def)

subsection \<open>The filter constructor\<close>

text \<open>
  Claim C9. \<open>apply_soft_delete_filter\<close> never mutates the mapping it is given: the heap it
  returns is the old heap with one new dictionary appended, so every existing object,
  the caller's filter among them, is as it was, and the result is a fresh reference. The
  new dictionary holds exactly the caller's entries (none when no filter is given), and
  the entry \<open>deleted_at = None\<close> is appended if and only if \<open>include_deleted\<close> is false and
  the caller's filter has no \<open>deleted_at\<close> key; otherwise it is a copy of the input. With no
  filter the result is what \<open>get_soft_delete_filter\<close> returns.
\<close>

theorem apply_soft_delete_filter_pure:
  "(case apply_soft_delete_filter h filter_query include_deleted of
      (h', r) \<Rightarrow>
        r = length h \<and> length h' = Suc (length h) \<and> take (length h) h' = h \<and>
        h' ! r =
          (let given = (case filter_query of None \<Rightarrow> [] | Some q \<Rightarrow> h ! q)
           in if \<not> include_deleted \<and> \<not> dict_contains given ''deleted_at''
              then given @ [(''deleted_at'', VNone)] else given))
   \<and> (case apply_soft_delete_filter h None include_deleted of
        (h', r) \<Rightarrow> h' ! r = get_soft_delete_filter include_deleted)"
  by (simp add: apply_soft_delete_filter_eq get_soft_delete_filter_def dict_contains_def)

subsection \<open>Calls outside the precondition\<close>

text \<open>
  Claim C5. \<open>delete\<close> on a document that is already soft-deleted returns with the object
  unchanged and the store untouched (no update is issued), and \<open>restore\<close> on a document
  that is not soft-deleted does the same. Hence both are idempotent: after a \<open>delete\<close>
  that returned, a second \<open>delete\<close>, whatever its time, operator and hash, changes neither
  the object nor the store, so the first audit record stands; likewise for \<open>restore\<close>.
\<close>

theorem delete_restore_outside_precondition:
  "(is_deleted self \<longrightarrow> delete coll py_hash now by self db = (Inr self, db))
   \<and> (\<not> is_deleted self \<longrightarrow> restore coll self db = (Inr self, db))
   \<and> (\<forall>self1 db1. delete coll py_hash now by self db = (Inr self1, db1) \<longrightarrow>
         delete coll py_hash' now' by' self1 db1 = (Inr self1, db1))
   \<and> (\<forall>self1 db1. restore coll self db = (Inr self1, db1) \<longrightarrow>
         restore coll self1 db1 = (Inr self1, db1))"
proof (intro conjI allI impI)
  assume "is_deleted self"
  then show "delete coll py_hash now by self db = (Inr self, db)"
    by (simp add: delete_def)
next
  assume "\<not> is_deleted self"
  then show "restore coll self db = (Inr self, db)"
    by (simp add: restore_def)
next
  fix self1 db1
  assume d: "delete coll py_hash now by self db = (Inr self1, db1)"
  have "is_deleted self1"
    using d by (auto simp: delete_def is_deleted_def Let_def split: if_splits prod.splits sum.splits)
  then show "delete coll py_hash' now' by' self1 db1 = (Inr self1, db1)"
    by (simp add: delete_def)
next
  fix self1 db1
  assume r: "restore coll self db = (Inr self1, db1)"
  have "\<not> is_deleted self1"
    using r by (auto simp: restore_def is_deleted_def split: if_splits prod.splits sum.splits)
  then show "restore coll self1 db1 = (Inr self1, db1)"
    by (simp add: restore_def)
qed

text \<open>The statement at the sample documents: each hypothesis is met there.\<close>

theorem delete_restore_outside_precondition_witness:
  "is_deleted sample_deleted_doc
   \<and> delete sample_coll sample_hash 9 (Some ''bob'') sample_deleted_doc sample_store
       = (Inr sample_deleted_doc, sample_store)
   \<and> \<not> is_deleted sample_doc
   \<and> restore sample_coll sample_doc sample_store = (Inr sample_doc, sample_store)
   \<and> (\<exists>self1 db1.
         delete sample_coll sample_hash 9 (Some ''bob'') sample_doc sample_store = (Inr self1, db1)
         \<and> deleted_at self1 = Some 9
         \<and> delete sample_coll sample_hash 11 (Some ''eve'') self1 db1 = (Inr self1, db1))
   \<and> (\<exists>self1 db1.
         restore sample_coll sample_deleted_doc sample_store = (Inr self1, db1)
         \<and> deleted_at self1 = None
         \<and> restore sample_coll self1 db1 = (Inr self1, db1))"
proof -
  have del: "is_deleted sample_deleted_doc" and live: "\<not> is_deleted sample_doc"
    by (simp_all add: sample_defs is_deleted_def)
  obtain s1 d1 where a:
    "delete sample_coll sample_hash 9 (Some ''bob'') sample_doc sample_store = (Inr s1, d1)"
    "deleted_at s1 = Some 9"
    by (simp add: delete_ref [OF live] sample_coll_def)
  obtain s2 d2 where b:
    "restore sample_coll sample_deleted_doc sample_store = (Inr s2, d2)"
    "deleted_at s2 = None"
    by (simp add: restore_ref [OF del] sample_coll_def)
  note t1 = delete_restore_outside_precondition
    [of sample_deleted_doc sample_coll sample_hash 9 "Some ''bob''" sample_store
        sample_hash 11 "Some ''eve''"]
  note t2 = delete_restore_outside_precondition
    [of sample_doc sample_coll sample_hash 9 "Some ''bob''" sample_store
        sample_hash 11 "Some ''eve''"]
  have c1: "delete sample_coll sample_hash 9 (Some ''bob'') sample_deleted_doc sample_store
       = (Inr sample_deleted_doc, sample_store)"
    using conjunct1 [OF t1] del by (rule mp)
  have c2: "restore sample_coll sample_doc sample_store = (Inr sample_doc, sample_store)"
    using conjunct1 [OF conjunct2 [OF t2]] live by (rule mp)
  have c3: "delete sample_coll sample_hash 11 (Some ''eve'') s1 d1 = (Inr s1, d1)"
    using conjunct1 [OF conjunct2 [OF conjunct2 [OF t2]]] a(1) by blast
  have c4: "restore sample_coll s2 d2 = (Inr s2, d2)"
    using conjunct2 [OF conjunct2 [OF conjunct2 [OF t1]]] b(1) by blast
  show ?thesis
    using del live c1 c2 a c3 b c4 by blast
qed

lemma map_of_delete_set:
  "map_of (assign_all d (delete_set now by n)) =
     (map_of d)(''deleted_at'' \<mapsto> VTime now, ''deleted_by'' \<mapsto> opt_val by, ''deleted_id'' \<mapsto> VInt n)"
  by (simp add: delete_set_def update_conv')

lemma map_of_restore_set:
  "map_of (assign_all d restore_set) =
     (map_of d)(''deleted_at'' \<mapsto> VNone, ''deleted_by'' \<mapsto> VNone, ''deleted_id'' \<mapsto> VInt 0)"
  by (simp add: restore_set_def update_conv')

lemma stored_ok_delete_set: "stored_ok (apply_update d [(''$set'', VDict (delete_set now by n))])"
  by (simp add: stored_ok_def stored_live_def apply_update_def map_of_delete_set field_eq_def)

lemma stored_ok_restore_set: "stored_ok (apply_update d [(''$set'', VDict restore_set)])"
  by (simp add: stored_ok_def stored_live_def apply_update_def map_of_restore_set field_eq_def)

lemma store_inv_update_first:
  "store_inv st \<Longrightarrow> (\<And>d. stored_ok (apply_update d upd)) \<Longrightarrow>
   store_inv (update_first sem flt upd st)"
  by (induction st) (auto simp: store_inv_def)

lemma store_inv_update_all:
  "store_inv st \<Longrightarrow> (\<And>d. stored_ok (apply_update d upd)) \<Longrightarrow>
   store_inv (update_all sem flt upd st)"
  by (induction st) (auto simp: store_inv_def update_all_def)

lemma delete_many_ref:
  "fst (delete_many (ref_collection sem) timestamp_us now h q by st) =
     (Inr \<lparr>matched_count = length (filter (\<lambda>d. matches sem d
              (if dict_contains (h ! q) ''deleted_at'' then h ! q
               else h ! q @ [(''deleted_at'', VNone)])) st),
           modified_count = count_changed st (update_all sem
              (if dict_contains (h ! q) ''deleted_at'' then h ! q
               else h ! q @ [(''deleted_at'', VNone)])
              [(''$set'', VDict (delete_set now by (timestamp_us now)))] st)\<rparr>,
      update_all sem
        (if dict_contains (h ! q) ''deleted_at'' then h ! q
         else h ! q @ [(''deleted_at'', VNone)])
        [(''$set'', VDict (delete_set now by (timestamp_us now)))] st)"
  by (simp add: delete_many_eq ref_collection_def Let_def)

lemma restore_many_ref:
  "snd (fst (restore_many (ref_collection sem) h q st)) =
     update_all sem
       (if dict_contains (h ! q) ''deleted_at'' then h ! q
        else h ! q @ [(''deleted_at'', VDict [(''$ne'', VNone)])])
       [(''$set'', VDict restore_set)] st"
  by (simp add: restore_many_eq ref_collection_def Let_def)

lemma restore_ref_snd:
  "snd (restore (ref_collection sem) self st) =
     (if is_deleted self
      then update_first sem [(''_id'', doc_id self)] [(''$set'', VDict restore_set)] st
      else st)"
  by (cases "is_deleted self") (simp_all add: restore_ref, simp add: restore_def)

lemma delete_ref_snd:
  "snd (delete (ref_collection sem) py_hash now by self st) =
     (if is_deleted self then st
      else update_first sem [(''_id'', doc_id self)]
        [(''$set'', VDict (delete_set now by
            (if val_truthy (doc_id self) then \<bar>py_hash (doc_id self)\<bar> else 0)))] st)"
  by (cases "is_deleted self") (simp_all add: delete_ref, simp add: delete_def)

subsection \<open>Delete, then restore\<close>

text \<open>
  Claim C3. For a live document, \<open>delete\<close> followed by \<open>restore\<close> (both returning) leaves
  the object equal to the original with \<open>deleted_at = None\<close>, \<open>deleted_by = None\<close> and
  \<open>deleted_id = 0\<close>, so it is the original object when that one carried the live
  values. The store received exactly two updates, each a \<open>$set\<close> of these three fields and
  nothing else, the second with the live values. On the reference collection both calls
  return and every stored document keeps all its other fields.
\<close>

theorem delete_then_restore:
  "(\<not> is_deleted self
      \<and> delete coll py_hash now by self db = (Inr self1, db1)
      \<and> restore coll self1 db1 = (Inr self2, db2)
    \<longrightarrow> self2 = self\<lparr>deleted_at := None, deleted_by := None, deleted_id := 0\<rparr>
        \<and> (deleted_by self = None \<and> deleted_id self = 0 \<longrightarrow> self2 = self)
        \<and> db1 = snd (coll_update_one coll [(''_id'', doc_id self)]
                    [(''$set'', VDict [(''deleted_at'', VTime now),
                                        (''deleted_by'', opt_val by),
                                        (''deleted_id'', VInt (deleted_id self1))])] db)
        \<and> db2 = snd (coll_update_one coll [(''_id'', doc_id self)]
                    [(''$set'', VDict [(''deleted_at'', VNone),
                                        (''deleted_by'', VNone),
                                        (''deleted_id'', VInt 0)])] db1))
   \<and> (\<not> is_deleted self \<longrightarrow>
        (\<exists>self1 st1 st2.
            delete (ref_collection sem) py_hash now by self st = (Inr self1, st1)
          \<and> restore (ref_collection sem) self1 st1 =
              (Inr (self\<lparr>deleted_at := None, deleted_by := None, deleted_id := 0\<rparr>), st2)
          \<and> map business_part st2 = map business_part st))"
proof (intro conjI impI)
  assume a: "\<not> is_deleted self
      \<and> delete coll py_hash now by self db = (Inr self1, db1)
      \<and> restore coll self1 db1 = (Inr self2, db2)"
  then have live: "\<not> is_deleted self"
    and d: "delete coll py_hash now by self db = (Inr self1, db1)"
    and r: "restore coll self1 db1 = (Inr self2, db2)"
    by simp_all
  let ?n = "if val_truthy (doc_id self) then \<bar>py_hash (doc_id self)\<bar> else 0"
  let ?u1 = "coll_update_one coll [(''_id'', doc_id self)]
               [(''$set'', VDict (delete_set now by ?n))] db"
  from d live have s1: "self1 = self\<lparr>deleted_at := Some now, deleted_by := by, deleted_id := ?n\<rparr>"
    and db1: "db1 = snd ?u1"
    by (auto simp: delete_live split: prod.splits sum.splits)
  have del1: "is_deleted self1" and id1: "doc_id self1 = doc_id self"
    and n1: "deleted_id self1 = ?n"
    by (simp_all add: s1 is_deleted_def)
  let ?u2 = "coll_update_one coll [(''_id'', doc_id self)]
               [(''$set'', VDict restore_set)] db1"
  from r del1 have s2: "self2 = self1\<lparr>deleted_at := None, deleted_by := None, deleted_id := 0\<rparr>"
    and db2: "db2 = snd ?u2"
    by (auto simp: restore_deleted id1 split: prod.splits sum.splits)
  show "self2 = self\<lparr>deleted_at := None, deleted_by := None, deleted_id := 0\<rparr>"
    by (simp add: s2 s1)
  show "db1 = snd (coll_update_one coll [(''_id'', doc_id self)]
                    [(''$set'', VDict [(''deleted_at'', VTime now),
                                        (''deleted_by'', opt_val by),
                                        (''deleted_id'', VInt (deleted_id self1))])] db)"
    using db1 by (simp add: n1 delete_set_def)
  show "db2 = snd (coll_update_one coll [(''_id'', doc_id self)]
                    [(''$set'', VDict [(''deleted_at'', VNone),
                                        (''deleted_by'', VNone),
                                        (''deleted_id'', VInt 0)])] db1)"
    using db2 by (simp add: restore_set_def)
  assume "deleted_by self = None \<and> deleted_id self = 0"
  with live show "self2 = self"
    by (simp add: s2 s1 is_deleted_def)
next
  assume live: "\<not> is_deleted self"
  let ?n = "if val_truthy (doc_id self) then \<bar>py_hash (doc_id self)\<bar> else 0"
  let ?s1 = "self\<lparr>deleted_at := Some now, deleted_by := by, deleted_id := ?n\<rparr>"
  let ?st1 = "update_first sem [(''_id'', doc_id self)]
                [(''$set'', VDict (delete_set now by ?n))] st"
  let ?st2 = "update_first sem [(''_id'', doc_id self)]
                [(''$set'', VDict restore_set)] ?st1"
  have d: "delete (ref_collection sem) py_hash now by self st = (Inr ?s1, ?st1)"
    by (rule delete_ref [OF live])
  have "is_deleted ?s1" by (simp add: is_deleted_def)
  then have r: "restore (ref_collection sem) ?s1 ?st1 =
      (Inr (self\<lparr>deleted_at := None, deleted_by := None, deleted_id := 0\<rparr>), ?st2)"
    by (simp add: restore_ref)
  have b: "map business_part ?st2 = map business_part st"
    by (simp add: business_part_update_first delete_set_keys restore_set_keys)
  from d r b show "\<exists>self1 st1 st2.
            delete (ref_collection sem) py_hash now by self st = (Inr self1, st1)
          \<and> restore (ref_collection sem) self1 st1 =
              (Inr (self\<lparr>deleted_at := None, deleted_by := None, deleted_id := 0\<rparr>), st2)
          \<and> map business_part st2 = map business_part st"
    by blast
qed

text \<open>The round trip on the sample document and collection: both come back as they were.\<close>

theorem delete_then_restore_witness:
  "\<not> is_deleted sample_doc
   \<and> (\<exists>self1 db1 db2.
         delete sample_coll sample_hash 9 (Some ''bob'') sample_doc sample_store = (Inr self1, db1)
       \<and> deleted_at self1 = Some 9 \<and> deleted_id self1 = 17
       \<and> restore sample_coll self1 db1 = (Inr sample_doc, db2)
       \<and> db2 = sample_store)"
proof -
  let ?s1 = "sample_doc\<lparr>deleted_at := Some 9, deleted_by := Some ''bob'', deleted_id := 17\<rparr>"
  let ?st1 = "update_first sample_sem [(''_id'', VOid ''a1'')]
                [(''$set'', VDict (delete_set 9 (Some ''bob'') 17))] sample_store"
  let ?s2 = "?s1\<lparr>deleted_at := None, deleted_by := None, deleted_id := 0\<rparr>"
  let ?st2 = "update_first sample_sem [(''_id'', VOid ''a1'')]
                [(''$set'', VDict restore_set)] ?st1"
  have live: "\<not> is_deleted sample_doc"
    by (simp add: sample_doc_def is_deleted_def)
  have id: "doc_id sample_doc = VOid ''a1''" and by0: "deleted_by sample_doc = None"
    and n0: "deleted_id sample_doc = 0"
    by (simp_all add: sample_doc_def)
  have d: "delete sample_coll sample_hash 9 (Some ''bob'') sample_doc sample_store = (Inr ?s1, ?st1)"
    by (simp add: delete_ref [OF live] sample_coll_def id sample_hash_def val_truthy_def)
  have "is_deleted ?s1" by (simp add: is_deleted_def)
  then have r: "restore sample_coll ?s1 ?st1 = (Inr ?s2, ?st2)"
    by (simp add: restore_ref sample_coll_def id val_truthy_def)
  have st: "?st2 = sample_store"
    by (simp add: sample_store_def sample_sem_def matches_def entry_matches_def field_eq_def
        apply_update_def delete_set_def restore_set_def opt_val_def)
  note t = delete_then_restore
    [of sample_doc sample_coll sample_hash 9 "Some ''bob''" sample_store ?s1 ?st1 ?s2 ?st2
        sample_sem sample_store]
  have "?s2 = sample_doc"
    using conjunct1 [OF t] live d r by0 n0 by blast
  with r have r': "restore sample_coll ?s1 ?st1 = (Inr sample_doc, ?st2)"
    by simp
  have "deleted_at ?s1 = Some 9 \<and> deleted_id ?s1 = 17" by simp
  with live d r' st show ?thesis by blast
qed

subsection \<open>Soft deletion never removes\<close>

text \<open>
  Claim C2. For a document that is not yet soft-deleted, the only effect of \<open>delete\<close> on
  the store is one \<open>update_one\<close> call that sets the three soft delete fields; when it
  returns, the object has \<open>deleted_at\<close> equal to the current time, so \<open>is_deleted\<close> holds,
  and \<open>deleted_by\<close> is the given operator. On the reference collection the call returns
  and the collection holds the same documents as before (same length, same ids). The
  same holds for \<open>restore\<close>, \<open>delete_many\<close> and \<open>restore_many\<close>: none of them removes a
  document. Removal is what \<open>hard_delete_many\<close> does (the matching documents are
  dropped) and what \<open>hard_delete\<close> passes to the parent class.
\<close>

theorem delete_is_soft:
  "(\<not> is_deleted self \<longrightarrow>
      snd (delete coll py_hash now by self db) =
        snd (coll_update_one coll [(''_id'', doc_id self)]
               [(''$set'', VDict [(''deleted_at'', VTime now),
                                   (''deleted_by'', opt_val by),
                                   (''deleted_id'', VInt (if val_truthy (doc_id self)
                                                        then \<bar>py_hash (doc_id self)\<bar>
                                                        else 0))])] db)
      \<and> (\<forall>self1 db1. delete coll py_hash now by self db = (Inr self1, db1) \<longrightarrow>
             deleted_at self1 = Some now \<and> deleted_by self1 = by \<and> is_deleted self1)
      \<and> (\<exists>self1 st1.
             delete (ref_collection sem) py_hash now by self st = (Inr self1, st1)
           \<and> deleted_at self1 = Some now \<and> deleted_by self1 = by \<and> is_deleted self1
           \<and> length st1 = length st \<and> ids_of st1 = ids_of st))
   \<and> ids_of (snd (restore (ref_collection sem) self st)) = ids_of st
   \<and> ids_of (snd (fst (delete_many (ref_collection sem) timestamp_us now h q by st))) = ids_of st
   \<and> ids_of (snd (fst (restore_many (ref_collection sem) h q st))) = ids_of st
   \<and> snd (hard_delete_many (ref_collection sem) h q st) =
       filter (\<lambda>d. \<not> matches sem d (h ! q)) st
   \<and> hard_delete super_delete self db = super_delete self db"
proof (intro conjI impI allI)
  let ?n = "if val_truthy (doc_id self) then \<bar>py_hash (doc_id self)\<bar> else 0"
  let ?s1 = "self\<lparr>deleted_at := Some now, deleted_by := by, deleted_id := ?n\<rparr>"
  {
    assume live: "\<not> is_deleted self"
    show "snd (delete coll py_hash now by self db) =
        snd (coll_update_one coll [(''_id'', doc_id self)]
               [(''$set'', VDict [(''deleted_at'', VTime now),
                                   (''deleted_by'', opt_val by),
                                   (''deleted_id'', VInt ?n)])] db)"
      by (simp add: delete_live [OF live] delete_set_def split: prod.splits sum.splits)
    let ?st1 = "update_first sem [(''_id'', doc_id self)]
                  [(''$set'', VDict (delete_set now by ?n))] st"
    have d: "delete (ref_collection sem) py_hash now by self st = (Inr ?s1, ?st1)"
      by (rule delete_ref [OF live])
    have "length ?st1 = length st" "ids_of ?st1 = ids_of st"
      by (simp_all add: length_update_first ids_of_update_first delete_set_keys)
    moreover have "deleted_at ?s1 = Some now" "deleted_by ?s1 = by" "is_deleted ?s1"
      by (simp_all add: is_deleted_def)
    ultimately show "\<exists>self1 st1.
             delete (ref_collection sem) py_hash now by self st = (Inr self1, st1)
           \<and> deleted_at self1 = Some now \<and> deleted_by self1 = by \<and> is_deleted self1
           \<and> length st1 = length st \<and> ids_of st1 = ids_of st"
      using d by blast
    fix self1 db1
    assume "delete coll py_hash now by self db = (Inr self1, db1)"
    with live have s1: "self1 = ?s1"
      by (auto simp: delete_live split: prod.splits sum.splits)
    show "deleted_at self1 = Some now" "deleted_by self1 = by" "is_deleted self1"
      by (simp_all add: s1 is_deleted_def)
  }
  show "ids_of (snd (restore (ref_collection sem) self st)) = ids_of st"
    by (simp add: restore_ref_snd ids_of_update_first restore_set_keys)
  show "ids_of (snd (fst (delete_many (ref_collection sem) timestamp_us now h q by st))) = ids_of st"
    by (simp only: delete_many_ref snd_conv ids_of_update_all [OF delete_set_keys])
  show "ids_of (snd (fst (restore_many (ref_collection sem) h q st))) = ids_of st"
    by (simp only: restore_many_ref ids_of_update_all [OF restore_set_keys])
  show "snd (hard_delete_many (ref_collection sem) h q st) =
       filter (\<lambda>d. \<not> matches sem d (h ! q)) st"
    by (simp add: hard_delete_many_def ref_collection_def)
  show "hard_delete super_delete self db = super_delete self db"
    by (simp add: hard_delete_def)
qed

text \<open>
  On the sample collection: the live sample document is marked, nothing is removed, and
  \<open>hard_delete_many\<close> with the same business key does remove the stored document.
\<close>

theorem delete_is_soft_witness:
  "\<not> is_deleted sample_doc
   \<and> delete sample_coll sample_hash 9 (Some ''bob'') sample_doc sample_store =
       (Inr \<lparr>doc_id = VOid ''a1'', deleted_at = Some 9, deleted_by = Some ''bob'', deleted_id = 17\<rparr>,
        [[(''_id'', VOid ''a1''), (''email'', VStr ''ann@example.com''),
          (''deleted_at'', VTime 9), (''deleted_by'', VStr ''bob''), (''deleted_id'', VInt 17)],
         sample_store ! 1])
   \<and> is_deleted \<lparr>doc_id = VOid ''a1'', deleted_at = Some (9::int), deleted_by = Some ''bob'',
                  deleted_id = 17\<rparr>
   \<and> snd (hard_delete_many sample_coll [[(''email'', VStr ''ann@example.com'')]] 0 sample_store)
       = [sample_store ! 1]"
proof -
  have live: "\<not> is_deleted sample_doc"
    by (simp add: sample_doc_def is_deleted_def)
  have d: "delete sample_coll sample_hash 9 (Some ''bob'') sample_doc sample_store =
       (Inr \<lparr>doc_id = VOid ''a1'', deleted_at = Some 9, deleted_by = Some ''bob'', deleted_id = 17\<rparr>,
        [[(''_id'', VOid ''a1''), (''email'', VStr ''ann@example.com''),
          (''deleted_at'', VTime 9), (''deleted_by'', VStr ''bob''), (''deleted_id'', VInt 17)],
         sample_store ! 1])"
    by (simp add: delete_ref [OF live] sample_coll_def)
       (simp add: sample_defs ref_eval)
  note t = delete_is_soft
    [of sample_doc sample_coll sample_hash 9 "Some ''bob''" sample_store sample_sem sample_store
        sample_timestamp_us "[[(''email'', VStr ''ann@example.com'')]]" 0]
  have "is_deleted \<lparr>doc_id = VOid ''a1'', deleted_at = Some (9::int), deleted_by = Some ''bob'',
                  deleted_id = 17\<rparr>"
    using conjunct1 [OF t] live d by blast
  moreover have "snd (hard_delete_many sample_coll [[(''email'', VStr ''ann@example.com'')]] 0 sample_store)
       = [sample_store ! 1]"
    by (simp add: sample_coll_def hard_delete_many_def) (simp add: sample_defs ref_eval)
  ultimately show ?thesis using live d by blast
qed

subsection \<open>Bulk soft deletion\<close>

lemma update_all_nth:
  "i < length st \<Longrightarrow>
   update_all sem flt upd st ! i =
     (if matches sem (st ! i) flt then apply_update (st ! i) upd else st ! i)"
  by (simp add: update_all_def)

text \<open>
  What \<open>delete_many\<close> does where it keeps its promise. For every filter without a
  \<open>deleted_at\<close> key, \<open>delete_many\<close> sends the
  store the caller's entries followed by \<open>deleted_at = None\<close>, with a \<open>$set\<close> of
  \<open>deleted_at\<close> to the current time, \<open>deleted_by\<close> to the given operator and \<open>deleted_id\<close>
  to the microsecond timestamp of that time. On the reference collection every live
  document the caller's filter matches gets these three values and keeps its other
  fields, and every document that is already soft-deleted, or that the filter does not
  match, is left as it is. A filter that has a \<open>deleted_at\<close> key is sent unchanged.
\<close>

lemma delete_many_live_only:
  "(\<not> dict_contains (h ! q) ''deleted_at'' \<longrightarrow>
      fst (delete_many coll timestamp_us now h q by db) =
        coll_update_many coll (h ! q @ [(''deleted_at'', VNone)])
          [(''$set'', VDict [(''deleted_at'', VTime now),
                              (''deleted_by'', opt_val by),
                              (''deleted_id'', VInt (timestamp_us now))])] db
      \<and> (\<forall>i<length st.
            (stored_live (st ! i) \<and> matches sem (st ! i) (h ! q) \<longrightarrow>
               map_of (snd (fst (delete_many (ref_collection sem) timestamp_us now h q by st)) ! i)
                 ''deleted_at'' = Some (VTime now)
             \<and> map_of (snd (fst (delete_many (ref_collection sem) timestamp_us now h q by st)) ! i)
                 ''deleted_by'' = Some (opt_val by)
             \<and> map_of (snd (fst (delete_many (ref_collection sem) timestamp_us now h q by st)) ! i)
                 ''deleted_id'' = Some (VInt (timestamp_us now))
             \<and> business_part
                 (snd (fst (delete_many (ref_collection sem) timestamp_us now h q by st)) ! i)
                 = business_part (st ! i))
          \<and> (\<not> stored_live (st ! i) \<longrightarrow>
               snd (fst (delete_many (ref_collection sem) timestamp_us now h q by st)) ! i = st ! i)
          \<and> (\<not> matches sem (st ! i) (h ! q) \<longrightarrow>
               snd (fst (delete_many (ref_collection sem) timestamp_us now h q by st)) ! i = st ! i)))
   \<and> (dict_contains (h ! q) ''deleted_at'' \<longrightarrow>
        fst (delete_many coll timestamp_us now h q by db) =
          coll_update_many coll (h ! q)
            [(''$set'', VDict [(''deleted_at'', VTime now),
                                (''deleted_by'', opt_val by),
                                (''deleted_id'', VInt (timestamp_us now))])] db)"
proof (intro conjI impI allI)
  assume "dict_contains (h ! q) ''deleted_at''"
  then show "fst (delete_many coll timestamp_us now h q by db) =
          coll_update_many coll (h ! q)
            [(''$set'', VDict [(''deleted_at'', VTime now),
                                (''deleted_by'', opt_val by),
                                (''deleted_id'', VInt (timestamp_us now))])] db"
    by (simp add: delete_many_eq delete_set_def Let_def)
next
  assume nc: "\<not> dict_contains (h ! q) ''deleted_at''"
  then show "fst (delete_many coll timestamp_us now h q by db) =
        coll_update_many coll (h ! q @ [(''deleted_at'', VNone)])
          [(''$set'', VDict [(''deleted_at'', VTime now),
                              (''deleted_by'', opt_val by),
                              (''deleted_id'', VInt (timestamp_us now))])] db"
    by (simp add: delete_many_eq delete_set_def Let_def)
  let ?upd = "[(''$set'', VDict (delete_set now by (timestamp_us now)))]"
  let ?after = "snd (fst (delete_many (ref_collection sem) timestamp_us now h q by st))"
  have after: "?after = update_all sem (h ! q @ [(''deleted_at'', VNone)]) ?upd st"
    using nc by (simp add: delete_many_ref)
  fix i
  assume i: "i < length st"
  have nth: "?after ! i =
      (if matches sem (st ! i) (h ! q) \<and> stored_live (st ! i)
       then assign_all (st ! i) (delete_set now by (timestamp_us now)) else st ! i)"
    by (simp add: after update_all_nth [OF i] matches_append matches_live apply_update_def)
  {
    assume "\<not> stored_live (st ! i)"
    then show "?after ! i = st ! i" by (simp add: nth)
  }
  {
    assume "\<not> matches sem (st ! i) (h ! q)"
    then show "?after ! i = st ! i" by (simp add: nth)
  }
  assume "stored_live (st ! i) \<and> matches sem (st ! i) (h ! q)"
  then have m: "?after ! i = assign_all (st ! i) (delete_set now by (timestamp_us now))"
    by (simp add: nth)
  show "map_of (?after ! i) ''deleted_at'' = Some (VTime now)"
    by (simp add: m map_of_delete_set)
  show "map_of (?after ! i) ''deleted_by'' = Some (opt_val by)"
    by (simp add: m map_of_delete_set)
  show "map_of (?after ! i) ''deleted_id'' = Some (VInt (timestamp_us now))"
    by (simp add: m map_of_delete_set)
  show "business_part (?after ! i) = business_part (st ! i)"
    by (simp add: m business_part_assign_all delete_set_keys)
qed

text \<open>
  On the sample collection with the empty filter: the live document is stamped, the
  deleted one is untouched; and a filter with its own \<open>deleted_at\<close> condition is sent as given.
\<close>

lemma delete_many_live_only_sample:
  "\<not> dict_contains ([[]] ! 0 :: int dict) ''deleted_at''
   \<and> stored_live (sample_store ! 0) \<and> matches sample_sem (sample_store ! 0) ([[]] ! 0)
   \<and> map_of (snd (fst (delete_many sample_coll sample_timestamp_us 9 [[]] 0 (Some ''bob'')
                sample_store)) ! 0) ''deleted_at'' = Some (VTime 9)
   \<and> map_of (snd (fst (delete_many sample_coll sample_timestamp_us 9 [[]] 0 (Some ''bob'')
                sample_store)) ! 0) ''deleted_id'' = Some (VInt 9000000)
   \<and> \<not> stored_live (sample_store ! 1)
   \<and> snd (fst (delete_many sample_coll sample_timestamp_us 9 [[]] 0 (Some ''bob'')
                sample_store)) ! 1 = sample_store ! 1
   \<and> dict_contains ([[(''deleted_at'', VDict [(''$ne'', VNone)])]] ! 0 :: int dict) ''deleted_at''
   \<and> fst (delete_many sample_coll sample_timestamp_us 9
            [[(''deleted_at'', VDict [(''$ne'', VNone)])]] 0 (Some ''bob'') sample_store) =
       coll_update_many sample_coll [(''deleted_at'', VDict [(''$ne'', VNone)])]
         [(''$set'', VDict [(''deleted_at'', VTime 9), (''deleted_by'', VStr ''bob''),
                             (''deleted_id'', VInt 9000000)])] sample_store"
proof -
  have nc: "\<not> dict_contains ([[]] ! 0 :: int dict) ''deleted_at''"
    by (simp add: dict_contains_def)
  have c: "dict_contains ([[(''deleted_at'', VDict [(''$ne'', VNone)])]] ! 0 :: int dict) ''deleted_at''"
    by (simp add: dict_contains_def)
  have l0: "stored_live (sample_store ! 0)" and l1: "\<not> stored_live (sample_store ! 1)"
    and m0: "matches sample_sem (sample_store ! 0) ([[]] ! 0)"
    and len: "0 < length sample_store" "1 < length sample_store"
    by (simp_all add: sample_store_def stored_live_def field_eq_def matches_def)
  note t1 = delete_many_live_only
    [of "[[]]" 0 sample_coll sample_timestamp_us 9 "Some ''bob''" sample_store sample_store
        sample_sem]
  note t2 = delete_many_live_only
    [of "[[(''deleted_at'', VDict [(''$ne'', VNone)])]]" 0 sample_coll sample_timestamp_us 9
        "Some ''bob''" sample_store sample_store sample_sem]
  note all = conjunct2 [OF mp [OF conjunct1 [OF t1] nc]]
  note at0 = mp [OF spec [OF all, of 0] len(1)]
  note at1 = mp [OF spec [OF all, of 1] len(2)]
  have a: "map_of (snd (fst (delete_many sample_coll sample_timestamp_us 9 [[]] 0 (Some ''bob'')
                sample_store)) ! 0) ''deleted_at'' = Some (VTime 9)"
    and b: "map_of (snd (fst (delete_many sample_coll sample_timestamp_us 9 [[]] 0 (Some ''bob'')
                sample_store)) ! 0) ''deleted_id'' = Some (VInt 9000000)"
    using mp [OF conjunct1 [OF at0]] l0 m0
    by (simp_all add: sample_coll_def sample_timestamp_us_def)
  have d: "snd (fst (delete_many sample_coll sample_timestamp_us 9 [[]] 0 (Some ''bob'')
                sample_store)) ! 1 = sample_store ! 1"
    using mp [OF conjunct1 [OF conjunct2 [OF at1]] l1]
    by (simp add: sample_coll_def)
  have e: "fst (delete_many sample_coll sample_timestamp_us 9
            [[(''deleted_at'', VDict [(''$ne'', VNone)])]] 0 (Some ''bob'') sample_store) =
       coll_update_many sample_coll [(''deleted_at'', VDict [(''$ne'', VNone)])]
         [(''$set'', VDict [(''deleted_at'', VTime 9), (''deleted_by'', VStr ''bob''),
                             (''deleted_id'', VInt 9000000)])] sample_store"
    using mp [OF conjunct2 [OF t2] c]
    by (simp add: opt_val_def sample_timestamp_us_def)
  from nc l0 m0 a b l1 d c e show ?thesis
    by (intro conjI)
qed

text \<open>
  Claim C4 does not hold of the code. \<open>delete_many\<close> promises to leave out the documents
  that are already soft-deleted, so that a repeated deletion cannot damage the audit
  record, but it relies on \<open>apply_soft_delete_filter\<close>, which adds \<open>deleted_at = None\<close>
  only when the caller's filter has no \<open>deleted_at\<close> key. A filter with that key is sent
  to the store as it is, and every document it matches, deleted or not, gets the new
  time, operator and identifier.
\<close>

theorem delete_many_restamps_deleted:
  "dict_contains (h ! q) ''deleted_at'' \<longrightarrow>
     fst (delete_many coll timestamp_us now h q by db) =
       coll_update_many coll (h ! q)
         [(''$set'', VDict [(''deleted_at'', VTime now),
                             (''deleted_by'', opt_val by),
                             (''deleted_id'', VInt (timestamp_us now))])] db
     \<and> (\<forall>i<length st.
           matches sem (st ! i) (h ! q) \<longrightarrow>
             map_of (snd (fst (delete_many (ref_collection sem) timestamp_us now h q by st)) ! i)
               ''deleted_at'' = Some (VTime now)
           \<and> map_of (snd (fst (delete_many (ref_collection sem) timestamp_us now h q by st)) ! i)
               ''deleted_by'' = Some (opt_val by)
           \<and> map_of (snd (fst (delete_many (ref_collection sem) timestamp_us now h q by st)) ! i)
               ''deleted_id'' = Some (VInt (timestamp_us now)))"
proof (intro impI conjI allI)
  assume c: "dict_contains (h ! q) ''deleted_at''"
  then show "fst (delete_many coll timestamp_us now h q by db) =
       coll_update_many coll (h ! q)
         [(''$set'', VDict [(''deleted_at'', VTime now),
                             (''deleted_by'', opt_val by),
                             (''deleted_id'', VInt (timestamp_us now))])] db"
    by (simp add: delete_many_eq delete_set_def Let_def)
  let ?after = "snd (fst (delete_many (ref_collection sem) timestamp_us now h q by st))"
  have after: "?after = update_all sem (h ! q)
      [(''$set'', VDict (delete_set now by (timestamp_us now)))] st"
    using c by (simp add: delete_many_ref)
  fix i
  assume i: "i < length st" and m: "matches sem (st ! i) (h ! q)"
  have nth: "?after ! i = assign_all (st ! i) (delete_set now by (timestamp_us now))"
    using m by (simp add: after update_all_nth [OF i] apply_update_def)
  show "map_of (?after ! i) ''deleted_at'' = Some (VTime now)"
    by (simp add: nth map_of_delete_set)
  show "map_of (?after ! i) ''deleted_by'' = Some (opt_val by)"
    by (simp add: nth map_of_delete_set)
  show "map_of (?after ! i) ''deleted_id'' = Some (VInt (timestamp_us now))"
    by (simp add: nth map_of_delete_set)
qed

text \<open>
  On the sample collection with the filter \<open>{"deleted_at": {"$ne": None}}\<close>: the document
  that alice deleted at time 5 is matched and stamped again, with time 9 and operator bob.
\<close>

theorem delete_many_restamps_deleted_witness:
  "dict_contains ([[(''deleted_at'', VDict [(''$ne'', VNone)])]] ! 0 :: int dict) ''deleted_at''
   \<and> \<not> stored_live (sample_store ! 1)
   \<and> map_of (sample_store ! 1) ''deleted_at'' = Some (VTime 5)
   \<and> map_of (sample_store ! 1) ''deleted_by'' = Some (VStr ''alice'')
   \<and> map_of (sample_store ! 1) ''deleted_id'' = Some (VInt 5000000)
   \<and> matches sample_sem (sample_store ! 1) [(''deleted_at'', VDict [(''$ne'', VNone)])]
   \<and> map_of (snd (fst (delete_many sample_coll sample_timestamp_us 9
                 [[(''deleted_at'', VDict [(''$ne'', VNone)])]] 0 (Some ''bob'') sample_store)) ! 1)
         ''deleted_at'' = Some (VTime 9)
   \<and> map_of (snd (fst (delete_many sample_coll sample_timestamp_us 9
                 [[(''deleted_at'', VDict [(''$ne'', VNone)])]] 0 (Some ''bob'') sample_store)) ! 1)
         ''deleted_by'' = Some (VStr ''bob'')
   \<and> map_of (snd (fst (delete_many sample_coll sample_timestamp_us 9
                 [[(''deleted_at'', VDict [(''$ne'', VNone)])]] 0 (Some ''bob'') sample_store)) ! 1)
         ''deleted_id'' = Some (VInt 9000000)"
proof -
  let ?h = "[[(''deleted_at'', VDict [(''$ne'', VNone)])]] :: int dict list"
  have c: "dict_contains (?h ! 0) ''deleted_at''"
    by (simp add: dict_contains_def)
  have old: "\<not> stored_live (sample_store ! 1)"
    "map_of (sample_store ! 1) ''deleted_at'' = Some (VTime 5)"
    "map_of (sample_store ! 1) ''deleted_by'' = Some (VStr ''alice'')"
    "map_of (sample_store ! 1) ''deleted_id'' = Some (VInt 5000000)"
    by (simp_all add: sample_store_def stored_live_def field_eq_def)
  have m: "matches sample_sem (sample_store ! 1) (?h ! 0)"
    by (simp add: sample_store_def matches_def entry_matches_def field_eq_def)
  have len: "1 < length sample_store" by (simp add: sample_store_def)
  note t = delete_many_restamps_deleted
    [of ?h 0 sample_coll sample_timestamp_us 9 "Some ''bob''" sample_store sample_store
        sample_sem]
  note at1 = mp [OF mp [OF spec [OF conjunct2 [OF mp [OF t c]], of 1] len] m]
  have a: "map_of (snd (fst (delete_many sample_coll sample_timestamp_us 9 ?h 0 (Some ''bob'')
      sample_store)) ! 1) ''deleted_at'' = Some (VTime 9)"
    using conjunct1 [OF at1] by (simp add: sample_coll_def)
  have b: "map_of (snd (fst (delete_many sample_coll sample_timestamp_us 9 ?h 0 (Some ''bob'')
      sample_store)) ! 1) ''deleted_by'' = Some (VStr ''bob'')"
    using conjunct1 [OF conjunct2 [OF at1]] by (simp add: sample_coll_def opt_val_def)
  have d: "map_of (snd (fst (delete_many sample_coll sample_timestamp_us 9 ?h 0 (Some ''bob'')
      sample_store)) ! 1) ''deleted_id'' = Some (VInt 9000000)"
    using conjunct2 [OF conjunct2 [OF at1]] by (simp add: sample_coll_def sample_timestamp_us_def)
  have m': "matches sample_sem (sample_store ! 1) [(''deleted_at'', VDict [(''$ne'', VNone)])]"
    using m by simp
  from c old m' a b d show ?thesis
    by (intro conjI)
qed

subsection \<open>The deleted-id discriminator\<close>

text \<open>
  Claim C1, as stated, fails: a soft deletion does not get a \<open>deleted_id\<close> of its own.
  One bulk deletion gives the two documents it deletes the same \<open>deleted_id\<close>; two bulk
  deletions at the same clock reading give two different documents with the same e-mail
  address the same \<open>deleted_id\<close>; and a document deleted, restored and deleted again gets
  the same \<open>deleted_id\<close> both times.
\<close>

theorem deleted_id_not_unique_counterexample:
  "map_of (sample_bulk ! 0) ''_id'' = Some (VOid ''a1'')
   \<and> map_of (sample_bulk ! 1) ''_id'' = Some (VOid ''d4'')
   \<and> map_of (sample_bulk ! 0) ''deleted_id'' = Some (VInt 9000000)
   \<and> map_of (sample_bulk ! 1) ''deleted_id'' = Some (VInt 9000000)
   \<and> map_of (sample_after_second ! 0) ''_id'' = Some (VOid ''a1'')
   \<and> map_of (sample_after_second ! 1) ''_id'' = Some (VOid ''c3'')
   \<and> map_of (sample_after_second ! 0) ''email'' = Some (VStr ''ann@example.com'')
   \<and> map_of (sample_after_second ! 1) ''email'' = Some (VStr ''ann@example.com'')
   \<and> map_of (sample_after_second ! 0) ''deleted_id'' = Some (VInt 9000000)
   \<and> map_of (sample_after_second ! 1) ''deleted_id'' = Some (VInt 9000000)
   \<and> fst sample_first_delete =
       Inr \<lparr>doc_id = VOid ''a1'', deleted_at = Some 9, deleted_by = None, deleted_id = 17\<rparr>
   \<and> fst sample_restored =
       Inr \<lparr>doc_id = VOid ''a1'', deleted_at = None, deleted_by = None, deleted_id = 0\<rparr>
   \<and> fst sample_second_delete =
       Inr \<lparr>doc_id = VOid ''a1'', deleted_at = Some 20, deleted_by = None, deleted_id = 17\<rparr>"
proof -
  have a: "sample_after_first =
      [[(''_id'', VOid ''a1''), (''email'', VStr ''ann@example.com''),
        (''deleted_at'', VTime 9), (''deleted_by'', VNone), (''deleted_id'', VInt 9000000)]]"
    by (simp add: sample_after_first_def delete_many_ref sample_coll_def)
       (simp add: sample_defs ref_eval)
  have b: "sample_after_second =
      [[(''_id'', VOid ''a1''), (''email'', VStr ''ann@example.com''),
        (''deleted_at'', VTime 9), (''deleted_by'', VNone), (''deleted_id'', VInt 9000000)],
       [(''_id'', VOid ''c3''), (''email'', VStr ''ann@example.com''),
        (''deleted_at'', VTime 9), (''deleted_by'', VNone), (''deleted_id'', VInt 9000000)]]"
    by (simp add: sample_after_second_def a delete_many_ref sample_coll_def)
       (simp add: sample_defs sample_new_doc_def ref_eval)
  have c: "sample_first_delete =
      (Inr \<lparr>doc_id = VOid ''a1'', deleted_at = Some 9, deleted_by = None, deleted_id = 17\<rparr>,
       [[(''_id'', VOid ''a1''), (''email'', VStr ''ann@example.com''),
         (''deleted_at'', VTime 9), (''deleted_by'', VNone), (''deleted_id'', VInt 17)],
        sample_store ! 1])"
    by (simp add: sample_first_delete_def delete_def sample_defs ref_eval)
  have d: "sample_restored =
      (Inr \<lparr>doc_id = VOid ''a1'', deleted_at = None, deleted_by = None, deleted_id = 0\<rparr>,
       sample_store)"
    by (simp add: sample_restored_def c restore_def sample_defs ref_eval)
  have e: "fst sample_second_delete =
      Inr \<lparr>doc_id = VOid ''a1'', deleted_at = Some 20, deleted_by = None, deleted_id = 17\<rparr>"
    by (simp add: sample_second_delete_def d delete_def sample_defs ref_eval)
  have f: "sample_bulk =
      [[(''_id'', VOid ''a1''), (''email'', VStr ''ann@example.com''),
        (''deleted_at'', VTime 9), (''deleted_by'', VNone), (''deleted_id'', VInt 9000000)],
       [(''_id'', VOid ''d4''), (''email'', VStr ''carol@example.com''),
        (''deleted_at'', VTime 9), (''deleted_by'', VNone), (''deleted_id'', VInt 9000000)]]"
    by (simp add: sample_bulk_def delete_many_ref sample_coll_def)
       (simp add: sample_defs sample_carol_def ref_eval)
  show ?thesis
    by (simp add: b c d e f)
qed

text \<open>
  The sentinel and the values assigned: a new document satisfies \<open>doc_inv\<close>, the four
  soft operations keep it on the object and on the reference collection, \<open>delete\<close>
  assigns the absolute value of the hash of a truthy id and 0 for a falsy one,
  \<open>restore\<close> assigns 0, and \<open>delete_many\<close> assigns the timestamp.
\<close>

lemma deleted_id_base:
  "doc_inv \<lparr>doc_id = i, deleted_at = None, deleted_by = None, deleted_id = 0, \<dots> = m\<rparr>
   \<and> (doc_inv self \<longrightarrow>
         (\<forall>self1 db1. delete coll py_hash now by self db = (Inr self1, db1) \<longrightarrow> doc_inv self1)
       \<and> (\<forall>self1 db1. restore coll self db = (Inr self1, db1) \<longrightarrow> doc_inv self1))
   \<and> (\<not> is_deleted self \<longrightarrow>
         (\<forall>self1 db1. delete coll py_hash now by self db = (Inr self1, db1) \<longrightarrow>
            deleted_id self1 = (if val_truthy (doc_id self) then \<bar>py_hash (doc_id self)\<bar> else 0)))
   \<and> (is_deleted self \<longrightarrow>
         (\<forall>self1 db1. restore coll self db = (Inr self1, db1) \<longrightarrow>
            deleted_id self1 = 0 \<and> \<not> is_deleted self1))
   \<and> (store_inv st \<longrightarrow>
         store_inv (snd (delete (ref_collection sem) py_hash now by self st))
       \<and> store_inv (snd (restore (ref_collection sem) self st))
       \<and> store_inv (snd (fst (delete_many (ref_collection sem) timestamp_us now h q by st)))
       \<and> store_inv (snd (fst (restore_many (ref_collection sem) h q st)))
       \<and> (\<forall>j<length st. \<forall>k<length st. stored_live (st ! j) \<and> stored_live (st ! k) \<longrightarrow>
             map_of (st ! j) ''deleted_id'' = map_of (st ! k) ''deleted_id''))
   \<and> (\<forall>j<length st.
         matches sem (st ! j)
           (if dict_contains (h ! q) ''deleted_at'' then h ! q
            else h ! q @ [(''deleted_at'', VNone)]) \<longrightarrow>
         map_of (snd (fst (delete_many (ref_collection sem) timestamp_us now h q by st)) ! j)
           ''deleted_id'' = Some (VInt (timestamp_us now)))"
proof (intro conjI impI allI)
  show "doc_inv \<lparr>doc_id = i, deleted_at = None, deleted_by = None, deleted_id = 0, \<dots> = m\<rparr>"
    by (simp add: doc_inv_def)
next
  fix self1 db1
  assume "doc_inv self" and "delete coll py_hash now by self db = (Inr self1, db1)"
  then show "doc_inv self1"
    by (auto simp: delete_def doc_inv_def is_deleted_def Let_def
        split: if_splits prod.splits sum.splits)
next
  fix self1 db1
  assume "doc_inv self" and "restore coll self db = (Inr self1, db1)"
  then show "doc_inv self1"
    by (auto simp: restore_def doc_inv_def is_deleted_def split: if_splits prod.splits sum.splits)
next
  fix self1 db1
  assume "\<not> is_deleted self" and "delete coll py_hash now by self db = (Inr self1, db1)"
  then show "deleted_id self1 = (if val_truthy (doc_id self) then \<bar>py_hash (doc_id self)\<bar> else 0)"
    by (auto simp: delete_live split: prod.splits sum.splits)
next
  fix self1 db1
  assume a: "is_deleted self" "restore coll self db = (Inr self1, db1)"
  then show "deleted_id self1 = 0"
    by (auto simp: restore_deleted split: prod.splits sum.splits)
  from a show "\<not> is_deleted self1"
    by (auto simp: restore_deleted is_deleted_def split: prod.splits sum.splits)
next
  assume inv: "store_inv st"
  show "store_inv (snd (delete (ref_collection sem) py_hash now by self st))"
    by (simp add: delete_ref_snd inv store_inv_update_first stored_ok_delete_set)
  show "store_inv (snd (restore (ref_collection sem) self st))"
    by (simp add: restore_ref_snd inv store_inv_update_first stored_ok_restore_set)
  show "store_inv (snd (fst (delete_many (ref_collection sem) timestamp_us now h q by st)))"
    by (simp only: delete_many_ref snd_conv store_inv_update_all [OF inv] stored_ok_delete_set)
  show "store_inv (snd (fst (restore_many (ref_collection sem) h q st)))"
    by (simp only: restore_many_ref store_inv_update_all [OF inv] stored_ok_restore_set)
  fix j k
  assume "j < length st" "k < length st" "stored_live (st ! j) \<and> stored_live (st ! k)"
  with inv show "map_of (st ! j) ''deleted_id'' = map_of (st ! k) ''deleted_id''"
    by (simp add: store_inv_def list_all_length stored_ok_def)
next
  fix j
  assume j: "j < length st"
    and "matches sem (st ! j)
           (if dict_contains (h ! q) ''deleted_at'' then h ! q
            else h ! q @ [(''deleted_at'', VNone)])"
  then show "map_of (snd (fst (delete_many (ref_collection sem) timestamp_us now h q by st)) ! j)
           ''deleted_id'' = Some (VInt (timestamp_us now))"
    by (simp only: delete_many_ref snd_conv update_all_nth [OF j] if_True apply_update_def)
       (simp add: map_of_delete_set)
qed

text \<open>
  Claim C1, amended. A document that is not soft-deleted has \<open>deleted_id = 0\<close>: a new
  document has it, and \<open>delete\<close>, \<open>restore\<close>, \<open>delete_many\<close> and \<open>restore_many\<close> preserve it, so
  all live records share one \<open>deleted_id\<close> and two live records with the same business key
  have the same index key (business key, \<open>deleted_id\<close>). A soft deletion does not get a
  \<open>deleted_id\<close> of its own. \<open>delete\<close> assigns the absolute value of the hash of the id when
  the id is truthy and 0 otherwise, \<open>restore\<close> resets it to 0, and \<open>delete_many\<close> assigns
  every document it matches the microsecond timestamp of the deletion time. Hence two
  documents deleted by \<open>delete\<close> have the same \<open>deleted_id\<close> exactly when these values
  coincide, and such a document keeps the sentinel 0 exactly when its id is falsy or
  hashes to 0. Two documents deleted by \<open>delete_many\<close> have the same \<open>deleted_id\<close> exactly
  when the timestamps of the two calls coincide, the sentinel exactly when the timestamp
  is 0, and the same index key exactly when their business keys and those timestamps
  coincide.
\<close>

theorem deleted_id_assignment:
  "(doc_inv \<lparr>doc_id = i, deleted_at = None, deleted_by = None, deleted_id = 0, \<dots> = m\<rparr>
   \<and> (doc_inv self \<longrightarrow>
         (\<forall>self1 db1. delete coll py_hash now by self db = (Inr self1, db1) \<longrightarrow> doc_inv self1)
       \<and> (\<forall>self1 db1. restore coll self db = (Inr self1, db1) \<longrightarrow> doc_inv self1))
   \<and> (\<not> is_deleted self \<longrightarrow>
         (\<forall>self1 db1. delete coll py_hash now by self db = (Inr self1, db1) \<longrightarrow>
            deleted_id self1 = (if val_truthy (doc_id self) then \<bar>py_hash (doc_id self)\<bar> else 0)))
   \<and> (is_deleted self \<longrightarrow>
         (\<forall>self1 db1. restore coll self db = (Inr self1, db1) \<longrightarrow>
            deleted_id self1 = 0 \<and> \<not> is_deleted self1))
   \<and> (store_inv st \<longrightarrow>
         store_inv (snd (delete (ref_collection sem) py_hash now by self st))
       \<and> store_inv (snd (restore (ref_collection sem) self st))
       \<and> store_inv (snd (fst (delete_many (ref_collection sem) timestamp_us now h q by st)))
       \<and> store_inv (snd (fst (restore_many (ref_collection sem) h q st)))
       \<and> (\<forall>j<length st. \<forall>k<length st. stored_live (st ! j) \<and> stored_live (st ! k) \<longrightarrow>
             map_of (st ! j) ''deleted_id'' = map_of (st ! k) ''deleted_id''))
   \<and> (\<forall>j<length st.
         matches sem (st ! j)
           (if dict_contains (h ! q) ''deleted_at'' then h ! q
            else h ! q @ [(''deleted_at'', VNone)]) \<longrightarrow>
         map_of (snd (fst (delete_many (ref_collection sem) timestamp_us now h q by st)) ! j)
           ''deleted_id'' = Some (VInt (timestamp_us now))))
   \<and> (store_inv st \<longrightarrow>
        (\<forall>j<length st. \<forall>k<length st.
            stored_live (st ! j) \<and> stored_live (st ! k)
            \<and> map_of (st ! j) bk = map_of (st ! k) bk \<longrightarrow>
            index_key bk (st ! j) = index_key bk (st ! k)))
   \<and> (\<not> is_deleted self \<and> \<not> is_deleted self2
        \<and> delete coll py_hash now by self db = (Inr s1, db1)
        \<and> delete coll py_hash now2 by2 self2 db1 = (Inr s2, db2) \<longrightarrow>
        is_deleted s1 \<and> is_deleted s2
        \<and> ((deleted_id s1 = deleted_id s2) =
             ((if val_truthy (doc_id self) then \<bar>py_hash (doc_id self)\<bar> else 0) =
              (if val_truthy (doc_id self2) then \<bar>py_hash (doc_id self2)\<bar> else 0)))
        \<and> ((deleted_id s1 = 0) =
             (\<not> val_truthy (doc_id self) \<or> py_hash (doc_id self) = 0)))
   \<and> (j < length st \<and> k < length st2 \<and> bk \<notin> set soft_delete_fields
        \<and> matches sem (st ! j)
           (if dict_contains (h ! q) ''deleted_at'' then h ! q
            else h ! q @ [(''deleted_at'', VNone)])
        \<and> matches sem (st2 ! k)
           (if dict_contains (h2 ! q2) ''deleted_at'' then h2 ! q2
            else h2 ! q2 @ [(''deleted_at'', VNone)]) \<longrightarrow>
        ((map_of (snd (fst (delete_many (ref_collection sem) timestamp_us now h q by st)) ! j) ''deleted_id'' =
          map_of (snd (fst (delete_many (ref_collection sem) timestamp_us now2 h2 q2 by2 st2)) ! k) ''deleted_id'') =
         (timestamp_us now = timestamp_us now2))
        \<and> ((map_of (snd (fst (delete_many (ref_collection sem) timestamp_us now h q by st)) ! j) ''deleted_id'' = Some (VInt 0)) =
             (timestamp_us now = 0))
        \<and> ((index_key bk (snd (fst (delete_many (ref_collection sem) timestamp_us now h q by st)) ! j) =
              index_key bk (snd (fst (delete_many (ref_collection sem) timestamp_us now2 h2 q2 by2 st2)) ! k)) =
             (map_of (st ! j) bk = map_of (st2 ! k) bk
              \<and> timestamp_us now = timestamp_us now2)))"
proof -
  have base: "doc_inv \<lparr>doc_id = i, deleted_at = None, deleted_by = None, deleted_id = 0, \<dots> = m\<rparr>
   \<and> (doc_inv self \<longrightarrow>
         (\<forall>self1 db1. delete coll py_hash now by self db = (Inr self1, db1) \<longrightarrow> doc_inv self1)
       \<and> (\<forall>self1 db1. restore coll self db = (Inr self1, db1) \<longrightarrow> doc_inv self1))
   \<and> (\<not> is_deleted self \<longrightarrow>
         (\<forall>self1 db1. delete coll py_hash now by self db = (Inr self1, db1) \<longrightarrow>
            deleted_id self1 = (if val_truthy (doc_id self) then \<bar>py_hash (doc_id self)\<bar> else 0)))
   \<and> (is_deleted self \<longrightarrow>
         (\<forall>self1 db1. restore coll self db = (Inr self1, db1) \<longrightarrow>
            deleted_id self1 = 0 \<and> \<not> is_deleted self1))
   \<and> (store_inv st \<longrightarrow>
         store_inv (snd (delete (ref_collection sem) py_hash now by self st))
       \<and> store_inv (snd (restore (ref_collection sem) self st))
       \<and> store_inv (snd (fst (delete_many (ref_collection sem) timestamp_us now h q by st)))
       \<and> store_inv (snd (fst (restore_many (ref_collection sem) h q st)))
       \<and> (\<forall>j<length st. \<forall>k<length st. stored_live (st ! j) \<and> stored_live (st ! k) \<longrightarrow>
             map_of (st ! j) ''deleted_id'' = map_of (st ! k) ''deleted_id''))
   \<and> (\<forall>j<length st.
         matches sem (st ! j)
           (if dict_contains (h ! q) ''deleted_at'' then h ! q
            else h ! q @ [(''deleted_at'', VNone)]) \<longrightarrow>
         map_of (snd (fst (delete_many (ref_collection sem) timestamp_us now h q by st)) ! j)
           ''deleted_id'' = Some (VInt (timestamp_us now)))"
    by (rule deleted_id_base)
  have L: "(store_inv st \<longrightarrow>
        (\<forall>j<length st. \<forall>k<length st.
            stored_live (st ! j) \<and> stored_live (st ! k)
            \<and> map_of (st ! j) bk = map_of (st ! k) bk \<longrightarrow>
            index_key bk (st ! j) = index_key bk (st ! k)))"
    by (simp add: store_inv_def list_all_length stored_ok_def index_key_def)
  have D: "(\<not> is_deleted self \<and> \<not> is_deleted self2
        \<and> delete coll py_hash now by self db = (Inr s1, db1)
        \<and> delete coll py_hash now2 by2 self2 db1 = (Inr s2, db2) \<longrightarrow>
        is_deleted s1 \<and> is_deleted s2
        \<and> ((deleted_id s1 = deleted_id s2) =
             ((if val_truthy (doc_id self) then \<bar>py_hash (doc_id self)\<bar> else 0) =
              (if val_truthy (doc_id self2) then \<bar>py_hash (doc_id self2)\<bar> else 0)))
        \<and> ((deleted_id s1 = 0) =
             (\<not> val_truthy (doc_id self) \<or> py_hash (doc_id self) = 0)))"
  proof (intro impI)
    assume a: "\<not> is_deleted self \<and> \<not> is_deleted self2
        \<and> delete coll py_hash now by self db = (Inr s1, db1)
        \<and> delete coll py_hash now2 by2 self2 db1 = (Inr s2, db2)"
    then have s1: "s1 = self\<lparr>deleted_at := Some now, deleted_by := by, deleted_id := (if val_truthy (doc_id self) then \<bar>py_hash (doc_id self)\<bar> else 0)\<rparr>"
      by (auto simp: delete_live split: prod.splits sum.splits)
    from a have s2: "s2 = self2\<lparr>deleted_at := Some now2, deleted_by := by2, deleted_id := (if val_truthy (doc_id self2) then \<bar>py_hash (doc_id self2)\<bar> else 0)\<rparr>"
      by (auto simp: delete_live split: prod.splits sum.splits)
    show "is_deleted s1 \<and> is_deleted s2
        \<and> ((deleted_id s1 = deleted_id s2) =
             ((if val_truthy (doc_id self) then \<bar>py_hash (doc_id self)\<bar> else 0) =
              (if val_truthy (doc_id self2) then \<bar>py_hash (doc_id self2)\<bar> else 0)))
        \<and> ((deleted_id s1 = 0) =
             (\<not> val_truthy (doc_id self) \<or> py_hash (doc_id self) = 0))"
      by (simp add: s1 s2 is_deleted_def)
  qed
  have M: "(j < length st \<and> k < length st2 \<and> bk \<notin> set soft_delete_fields
        \<and> matches sem (st ! j)
           (if dict_contains (h ! q) ''deleted_at'' then h ! q
            else h ! q @ [(''deleted_at'', VNone)])
        \<and> matches sem (st2 ! k)
           (if dict_contains (h2 ! q2) ''deleted_at'' then h2 ! q2
            else h2 ! q2 @ [(''deleted_at'', VNone)]) \<longrightarrow>
        ((map_of (snd (fst (delete_many (ref_collection sem) timestamp_us now h q by st)) ! j) ''deleted_id'' =
          map_of (snd (fst (delete_many (ref_collection sem) timestamp_us now2 h2 q2 by2 st2)) ! k) ''deleted_id'') =
         (timestamp_us now = timestamp_us now2))
        \<and> ((map_of (snd (fst (delete_many (ref_collection sem) timestamp_us now h q by st)) ! j) ''deleted_id'' = Some (VInt 0)) =
             (timestamp_us now = 0))
        \<and> ((index_key bk (snd (fst (delete_many (ref_collection sem) timestamp_us now h q by st)) ! j) =
              index_key bk (snd (fst (delete_many (ref_collection sem) timestamp_us now2 h2 q2 by2 st2)) ! k)) =
             (map_of (st ! j) bk = map_of (st2 ! k) bk
              \<and> timestamp_us now = timestamp_us now2)))"
  proof (intro impI)
    assume a: "j < length st \<and> k < length st2 \<and> bk \<notin> set soft_delete_fields
        \<and> matches sem (st ! j)
           (if dict_contains (h ! q) ''deleted_at'' then h ! q
            else h ! q @ [(''deleted_at'', VNone)])
        \<and> matches sem (st2 ! k)
           (if dict_contains (h2 ! q2) ''deleted_at'' then h2 ! q2
            else h2 ! q2 @ [(''deleted_at'', VNone)])"
    then have j: "j < length st" and k: "k < length st2" and bk: "bk \<notin> set soft_delete_fields"
      by simp_all
    have n1: "(snd (fst (delete_many (ref_collection sem) timestamp_us now h q by st)) ! j) = assign_all (st ! j) (delete_set now by (timestamp_us now))"
      using a by (simp only: delete_many_ref snd_conv update_all_nth [OF j] if_True apply_update_def)
         simp
    have n2: "(snd (fst (delete_many (ref_collection sem) timestamp_us now2 h2 q2 by2 st2)) ! k) = assign_all (st2 ! k) (delete_set now2 by2 (timestamp_us now2))"
      using a by (simp only: delete_many_ref snd_conv update_all_nth [OF k] if_True apply_update_def)
         simp
    show "((map_of (snd (fst (delete_many (ref_collection sem) timestamp_us now h q by st)) ! j) ''deleted_id'' =
          map_of (snd (fst (delete_many (ref_collection sem) timestamp_us now2 h2 q2 by2 st2)) ! k) ''deleted_id'') =
         (timestamp_us now = timestamp_us now2))
        \<and> ((map_of (snd (fst (delete_many (ref_collection sem) timestamp_us now h q by st)) ! j) ''deleted_id'' = Some (VInt 0)) =
             (timestamp_us now = 0))
        \<and> ((index_key bk (snd (fst (delete_many (ref_collection sem) timestamp_us now h q by st)) ! j) =
              index_key bk (snd (fst (delete_many (ref_collection sem) timestamp_us now2 h2 q2 by2 st2)) ! k)) =
             (map_of (st ! j) bk = map_of (st2 ! k) bk
              \<and> timestamp_us now = timestamp_us now2))"
      unfolding n1 n2 index_key_def
      using bk by (auto simp: map_of_delete_set soft_delete_fields_def)
  qed
  have rest: "(store_inv st \<longrightarrow>
        (\<forall>j<length st. \<forall>k<length st.
            stored_live (st ! j) \<and> stored_live (st ! k)
            \<and> map_of (st ! j) bk = map_of (st ! k) bk \<longrightarrow>
            index_key bk (st ! j) = index_key bk (st ! k)))
   \<and> (\<not> is_deleted self \<and> \<not> is_deleted self2
        \<and> delete coll py_hash now by self db = (Inr s1, db1)
        \<and> delete coll py_hash now2 by2 self2 db1 = (Inr s2, db2) \<longrightarrow>
        is_deleted s1 \<and> is_deleted s2
        \<and> ((deleted_id s1 = deleted_id s2) =
             ((if val_truthy (doc_id self) then \<bar>py_hash (doc_id self)\<bar> else 0) =
              (if val_truthy (doc_id self2) then \<bar>py_hash (doc_id self2)\<bar> else 0)))
        \<and> ((deleted_id s1 = 0) =
             (\<not> val_truthy (doc_id self) \<or> py_hash (doc_id self) = 0)))
   \<and> (j < length st \<and> k < length st2 \<and> bk \<notin> set soft_delete_fields
        \<and> matches sem (st ! j)
           (if dict_contains (h ! q) ''deleted_at'' then h ! q
            else h ! q @ [(''deleted_at'', VNone)])
        \<and> matches sem (st2 ! k)
           (if dict_contains (h2 ! q2) ''deleted_at'' then h2 ! q2
            else h2 ! q2 @ [(''deleted_at'', VNone)]) \<longrightarrow>
        ((map_of (snd (fst (delete_many (ref_collection sem) timestamp_us now h q by st)) ! j) ''deleted_id'' =
          map_of (snd (fst (delete_many (ref_collection sem) timestamp_us now2 h2 q2 by2 st2)) ! k) ''deleted_id'') =
         (timestamp_us now = timestamp_us now2))
        \<and> ((map_of (snd (fst (delete_many (ref_collection sem) timestamp_us now h q by st)) ! j) ''deleted_id'' = Some (VInt 0)) =
             (timestamp_us now = 0))
        \<and> ((index_key bk (snd (fst (delete_many (ref_collection sem) timestamp_us now h q by st)) ! j) =
              index_key bk (snd (fst (delete_many (ref_collection sem) timestamp_us now2 h2 q2 by2 st2)) ! k)) =
             (map_of (st ! j) bk = map_of (st2 ! k) bk
              \<and> timestamp_us now = timestamp_us now2)))"
    using L D M by (intro conjI)
  from base rest show ?thesis
    by (rule conjI)
qed

text \<open>
  On the sample data: the live sample document and its deletion; two documents whose ids
  hash to 17 and to its negative and get the same \<open>deleted_id\<close>; a document whose id hashes
  to 0 and is deleted with the sentinel; and two bulk deletions at the same clock
  reading that give two documents with one e-mail address the same index key.
\<close>

theorem deleted_id_assignment_witness:
  "doc_inv sample_doc \<and> \<not> is_deleted sample_doc
   \<and> fst (delete sample_coll sample_hash 9 None sample_doc sample_store) =
       Inr \<lparr>doc_id = VOid ''a1'', deleted_at = Some 9, deleted_by = None, deleted_id = 17\<rparr>
   \<and> doc_inv \<lparr>doc_id = VOid ''a1'', deleted_at = Some (9::int), deleted_by = None,
                deleted_id = 17\<rparr>
   \<and> is_deleted sample_deleted_doc
   \<and> deleted_id (projr (fst (restore sample_coll sample_deleted_doc sample_store))) = 0
   \<and> store_inv sample_store
   \<and> store_inv (snd (fst (delete_many sample_coll sample_timestamp_us 9 [[]] 0 None sample_store)))
   \<and> index_key ''email'' (sample_store ! 0) = (Some (VStr ''ann@example.com''), Some (VInt 0))
   \<and> matches sample_sem (sample_store ! 0) ([[]] ! 0 @ [(''deleted_at'', VNone)])
   \<and> map_of (snd (fst (delete_many sample_coll sample_timestamp_us 9 [[]] 0 None sample_store)) ! 0)
        ''deleted_id'' = Some (VInt 9000000)
   \<and> \<not> is_deleted sample_doc_c3
   \<and> sample_hash (doc_id sample_doc) \<noteq> sample_hash (doc_id sample_doc_c3)
   \<and> fst (delete sample_coll sample_hash 9 None sample_doc_c3
            (snd (delete sample_coll sample_hash 9 None sample_doc sample_store))) =
       Inr \<lparr>doc_id = VOid ''c3'', deleted_at = Some 9, deleted_by = None, deleted_id = 17\<rparr>
   \<and> \<not> is_deleted sample_doc_z0
   \<and> fst (delete sample_coll sample_hash 9 None sample_doc_z0 sample_store) =
       Inr \<lparr>doc_id = VOid ''z0'', deleted_at = Some 9, deleted_by = None, deleted_id = 0\<rparr>
   \<and> is_deleted \<lparr>doc_id = VOid ''z0'', deleted_at = Some (9::int), deleted_by = None,
                  deleted_id = 0\<rparr>
   \<and> matches sample_sem ([sample_new_doc] ! 0) ([[]] ! 0 @ [(''deleted_at'', VNone)])
   \<and> index_key ''email''
         (snd (fst (delete_many sample_coll sample_timestamp_us 9 [[]] 0 None sample_store)) ! 0)
       = index_key ''email''
         (snd (fst (delete_many sample_coll sample_timestamp_us 9 [[]] 0 None [sample_new_doc])) ! 0)"
proof -
  let ?S1 = "\<lparr>doc_id = VOid ''a1'', deleted_at = Some (9::int), deleted_by = None, deleted_id = 17\<rparr>"
  let ?S2 = "\<lparr>doc_id = VOid ''c3'', deleted_at = Some (9::int), deleted_by = None, deleted_id = 17\<rparr>"
  let ?Z1 = "\<lparr>doc_id = VOid ''z0'', deleted_at = Some (9::int), deleted_by = None, deleted_id = 0\<rparr>"
  let ?ST1 = "update_first sample_sem [(''_id'', VOid ''a1'')]
      [(''$set'', VDict (delete_set 9 None 17))] sample_store"
  let ?ST2 = "update_first sample_sem [(''_id'', VOid ''c3'')]
      [(''$set'', VDict (delete_set 9 None 17))] ?ST1"
  let ?STZ = "update_first sample_sem [(''_id'', VOid ''z0'')]
      [(''$set'', VDict (delete_set 9 None 0))] sample_store"
  let ?STZ2 = "update_first sample_sem [(''_id'', VOid ''c3'')]
      [(''$set'', VDict (delete_set 9 None 17))] ?STZ"
  have live: "\<not> is_deleted sample_doc" and live2: "\<not> is_deleted sample_doc_c3"
    and livez: "\<not> is_deleted sample_doc_z0" and del: "is_deleted sample_deleted_doc"
    and inv: "doc_inv sample_doc"
    by (simp_all add: sample_doc_def sample_doc_c3_def sample_doc_z0_def sample_deleted_doc_def
        is_deleted_def doc_inv_def)
  have d1: "delete sample_coll sample_hash 9 None sample_doc sample_store = (Inr ?S1, ?ST1)"
    by (simp add: delete_ref [OF live] sample_coll_def)
       (simp add: sample_doc_def sample_hash_def val_truthy_def)
  have d2: "delete sample_coll sample_hash 9 None sample_doc_c3 ?ST1 = (Inr ?S2, ?ST2)"
    by (simp add: delete_ref [OF live2] sample_coll_def)
       (simp add: sample_doc_c3_def sample_hash_def val_truthy_def)
  have dz: "delete sample_coll sample_hash 9 None sample_doc_z0 sample_store = (Inr ?Z1, ?STZ)"
    by (simp add: delete_ref [OF livez] sample_coll_def)
       (simp add: sample_doc_z0_def sample_hash_def val_truthy_def)
  have hz: "delete sample_coll sample_hash 9 None sample_doc_c3 ?STZ = (Inr ?S2, ?STZ2)"
    by (simp add: delete_ref [OF live2] sample_coll_def)
       (simp add: sample_doc_c3_def sample_hash_def val_truthy_def)
  obtain s3 st3 where r: "restore sample_coll sample_deleted_doc sample_store = (Inr s3, st3)"
    by (simp add: restore_ref [OF del] sample_coll_def)
  have sinv: "store_inv sample_store"
    by (simp add: store_inv_def stored_ok_def sample_store_def stored_live_def field_eq_def)
  have m1: "matches sample_sem (sample_store ! 0) ([[]] ! 0 @ [(''deleted_at'', VNone)])"
    and m2: "matches sample_sem ([sample_new_doc] ! 0) ([[]] ! 0 @ [(''deleted_at'', VNone)])"
    by (simp_all add: sample_store_def sample_new_doc_def matches_def entry_matches_def
        field_eq_def)
  have hne: "sample_hash (doc_id sample_doc) \<noteq> sample_hash (doc_id sample_doc_c3)"
    by (simp add: sample_doc_def sample_doc_c3_def sample_hash_def)
  note tA = deleted_id_assignment
    [of VNone "()" sample_doc sample_coll sample_hash 9 None sample_store sample_store sample_sem
        sample_timestamp_us "[[]]" 0 "''email''" sample_doc_c3 ?S1 ?ST1 9 None ?S2 ?ST2
        0 0 "[sample_new_doc]" "[[]]" 0]
  note tB = deleted_id_assignment
    [of VNone "()" sample_deleted_doc sample_coll sample_hash 9 None sample_store sample_store
        sample_sem sample_timestamp_us "[[]]" 0 "''email''" sample_doc_c3 ?S1 ?ST1 9 None ?S2 ?ST2
        0 0 "[sample_new_doc]" "[[]]" 0]
  note tZ = deleted_id_assignment
    [of VNone "()" sample_doc_z0 sample_coll sample_hash 9 None sample_store sample_store
        sample_sem sample_timestamp_us "[[]]" 0 "''email''" sample_doc_c3 ?Z1 ?STZ 9 None ?S2 ?STZ2
        0 0 "[sample_new_doc]" "[[]]" 0]
  note oldA = conjunct1 [OF tA]
  note oldB = conjunct1 [OF tB]
  note LA = conjunct1 [OF conjunct2 [OF tA]]
  note DA = conjunct1 [OF conjunct2 [OF conjunct2 [OF tA]]]
  note DZ = conjunct1 [OF conjunct2 [OF conjunct2 [OF tZ]]]
  note MA = conjunct2 [OF conjunct2 [OF conjunct2 [OF tA]]]
  have c1: "fst (delete sample_coll sample_hash 9 None sample_doc sample_store) = Inr ?S1"
    by (simp add: d1)
  have "doc_inv ?S1"
    using conjunct1 [OF mp [OF conjunct1 [OF conjunct2 [OF oldA]] inv]] d1 by blast
  then have c2: "doc_inv ?S1" .
  have "deleted_id s3 = 0"
    using mp [OF conjunct1 [OF conjunct2 [OF conjunct2 [OF conjunct2 [OF oldB]]]] del] r by blast
  then have c3: "deleted_id (projr (fst (restore sample_coll sample_deleted_doc sample_store))) = 0"
    by (simp add: r)
  note five = mp [OF conjunct1 [OF conjunct2 [OF conjunct2 [OF conjunct2 [OF conjunct2 [OF oldA]]]]]
    sinv]
  have c4: "store_inv (snd (fst (delete_many sample_coll sample_timestamp_us 9 [[]] 0 None
      sample_store)))"
    using conjunct1 [OF conjunct2 [OF conjunct2 [OF five]]] by (simp add: sample_coll_def)
  have len: "0 < length sample_store" by (simp add: sample_store_def)
  have live0: "stored_live (sample_store ! 0)"
    by (simp add: sample_store_def stored_live_def field_eq_def)
  have "index_key ''email'' (sample_store ! 0) = index_key ''email'' (sample_store ! 0)"
    using mp [OF mp [OF spec [OF mp [OF spec [OF mp [OF LA sinv], of 0] len], of 0] len]] live0
    by simp
  then have c5: "index_key ''email'' (sample_store ! 0)
      = (Some (VStr ''ann@example.com''), Some (VInt 0))"
    by (simp add: index_key_def sample_store_def)
  note six = conjunct2 [OF conjunct2 [OF conjunct2 [OF conjunct2 [OF conjunct2 [OF oldA]]]]]
  have c6: "map_of (snd (fst (delete_many sample_coll sample_timestamp_us 9 [[]] 0 None
      sample_store)) ! 0) ''deleted_id'' = Some (VInt 9000000)"
    using mp [OF mp [OF spec [OF six, of 0] len]] m1
    by (simp add: sample_coll_def dict_contains_def sample_timestamp_us_def)
  have hD: "\<not> is_deleted sample_doc \<and> \<not> is_deleted sample_doc_c3
        \<and> delete sample_coll sample_hash 9 None sample_doc sample_store = (Inr ?S1, ?ST1)
        \<and> delete sample_coll sample_hash 9 None sample_doc_c3 ?ST1 = (Inr ?S2, ?ST2)"
    using live live2 d1 d2 by (intro conjI)
  have "deleted_id ?S1 = deleted_id ?S2"
    using mp [OF DA hD] by (simp add: sample_doc_def sample_doc_c3_def sample_hash_def val_truthy_def)
  then have c7: "fst (delete sample_coll sample_hash 9 None sample_doc_c3
            (snd (delete sample_coll sample_hash 9 None sample_doc sample_store))) = Inr ?S2"
    by (simp add: d1 d2)
  have hZ: "\<not> is_deleted sample_doc_z0 \<and> \<not> is_deleted sample_doc_c3
        \<and> delete sample_coll sample_hash 9 None sample_doc_z0 sample_store = (Inr ?Z1, ?STZ)
        \<and> delete sample_coll sample_hash 9 None sample_doc_c3 ?STZ = (Inr ?S2, ?STZ2)"
    using livez live2 dz hz by (intro conjI)
  have c8: "is_deleted ?Z1"
    using conjunct1 [OF mp [OF DZ hZ]] .
  have c9: "fst (delete sample_coll sample_hash 9 None sample_doc_z0 sample_store) = Inr ?Z1"
    by (simp add: dz)
  have hM: "0 < length sample_store \<and> 0 < length [sample_new_doc]
        \<and> ''email'' \<notin> set soft_delete_fields
        \<and> matches sample_sem (sample_store ! 0)
           (if dict_contains ([[]] ! 0) ''deleted_at'' then [[]] ! 0
            else [[]] ! 0 @ [(''deleted_at'', VNone)])
        \<and> matches sample_sem ([sample_new_doc] ! 0)
           (if dict_contains ([[]] ! 0) ''deleted_at'' then [[]] ! 0
            else [[]] ! 0 @ [(''deleted_at'', VNone)])"
    using len m1 m2 by (simp add: soft_delete_fields_def dict_contains_def)
  have same: "map_of (sample_store ! 0) ''email'' = map_of ([sample_new_doc] ! 0) ''email''"
    by (simp add: sample_store_def sample_new_doc_def)
  have c10: "index_key ''email''
         (snd (fst (delete_many sample_coll sample_timestamp_us 9 [[]] 0 None sample_store)) ! 0)
       = index_key ''email''
         (snd (fst (delete_many sample_coll sample_timestamp_us 9 [[]] 0 None [sample_new_doc])) ! 0)"
    using conjunct2 [OF conjunct2 [OF mp [OF MA hM]]] same by (simp add: sample_coll_def)
  from inv live c1 c2 del c3 sinv c4 c5 m1 c6 live2 hne c7 livez c9 c8 m2 c10 show ?thesis
    by (intro conjI)
qed

section \<open>Properties of the deletion service\<close>

lemma memcell_delete_many_eq:
  "memcell_delete_many self now fd by w =
     (let final = (if dict_contains fd ''deleted_at'' then fd else fd @ [(''deleted_at'', VNone)]);
          r = coll_update_many (memcell_collection self) final
                [(''$set'', VDict (delete_set now by (timestamp_us_of self now)))] (store w)
      in (fst r, w\<lparr>store := snd r, heap := heap w @ [fd, final]\<rparr>))"
  by (simp add: memcell_delete_many_def alloc_def delete_many_eq Let_def split: prod.splits)

lemma given_cases:
  "given x all = Some s \<Longrightarrow> x = Some s \<and> s \<noteq> [] \<and> s \<noteq> all"
  by (auto simp: given_def split: option.splits if_splits)

lemma build_criteria_keys:
  "build_criteria self event_id user_id group_id = Inr (fd, used) \<Longrightarrow>
   \<not> dict_contains fd ''deleted_at''"
  by (auto simp: build_criteria_def Let_def dict_contains_def dict_set_def
      split: option.splits sum.splits prod.splits)

text \<open>
  Claim C8. When the repository call of \<open>delete_by_event_id\<close> or \<open>delete_by_user_id\<close>, or
  the store's \<open>update_many\<close> under \<open>delete_by_group_id\<close> or \<open>delete_by_combined_criteria\<close>,
  raises an exception, the method raises that same exception: it is not swallowed and
  not turned into a return value. The store is left as the failing call left it, no
  existing object is changed, and the log gains the entry written before the call and
  one error entry that carries the exception. For the two repository methods the outcome
  of the method, value or exception, is the outcome of the repository call.
\<close>

theorem service_reraises:
  "fst (delete_by_event_id self event_id by w) =
     fst (repo_delete_by_event_id (memcell_repository self) event_id by (store w))
   \<and> (repo_delete_by_event_id (memcell_repository self) event_id by (store w) = (Inl e, db') \<longrightarrow>
        delete_by_event_id self event_id by w =
          (Inl e, w\<lparr>store := db',
                     log := log w @ [Info ''Deleting MemCell by event_id'',
                                     Error ''Failed to delete MemCell by event_id'' e]\<rparr>))
   \<and> fst (delete_by_user_id self user_id by w) =
       fst (repo_delete_by_user_id (memcell_repository self) user_id by (store w))
   \<and> (repo_delete_by_user_id (memcell_repository self) user_id by (store w) = (Inl e, db') \<longrightarrow>
        delete_by_user_id self user_id by w =
          (Inl e, w\<lparr>store := db',
                     log := log w @ [Info ''Deleting MemCells by user_id'',
                                     Error ''Failed to delete MemCells by user_id'' e]\<rparr>))
   \<and> (coll_update_many (memcell_collection self)
          [(''group_id'', VStr group_id), (''deleted_at'', VNone)]
          [(''$set'', VDict [(''deleted_at'', VTime now),
                              (''deleted_by'', opt_val by),
                              (''deleted_id'', VInt (timestamp_us_of self now))])] (store w)
        = (Inl e, db') \<longrightarrow>
        delete_by_group_id self now group_id by w =
          (Inl e, w\<lparr>store := db',
                     heap := heap w @ [[(''group_id'', VStr group_id)],
                                       [(''group_id'', VStr group_id), (''deleted_at'', VNone)]],
                     log := log w @ [Info ''Deleting MemCells by group_id'',
                                     Error ''Failed to delete MemCells by group_id'' e]\<rparr>))
   \<and> (build_criteria self ev_id user_id' group_id' = Inr (fd, used) \<and> fd \<noteq> []
        \<and> coll_update_many (memcell_collection self) (fd @ [(''deleted_at'', VNone)])
             [(''$set'', VDict [(''deleted_at'', VTime now),
                                 (''deleted_by'', VNone),
                                 (''deleted_id'', VInt (timestamp_us_of self now))])] (store w)
           = (Inl e, db') \<longrightarrow>
        delete_by_combined_criteria self now ev_id user_id' group_id' w =
          (Inl e, w\<lparr>store := db',
                     heap := heap w @ [fd, fd @ [(''deleted_at'', VNone)]],
                     log := log w @ [Info ''Deleting MemCells with combined criteria'',
                                     Error ''Failed to delete MemCells with combined criteria'' e]\<rparr>))"
proof (intro conjI impI)
  show "fst (delete_by_event_id self event_id by w) =
     fst (repo_delete_by_event_id (memcell_repository self) event_id by (store w))"
    by (simp add: delete_by_event_id_def logger_def Let_def split: prod.splits sum.splits)
  show "fst (delete_by_user_id self user_id by w) =
       fst (repo_delete_by_user_id (memcell_repository self) user_id by (store w))"
    by (simp add: delete_by_user_id_def logger_def Let_def split: prod.splits sum.splits)
next
  assume "repo_delete_by_event_id (memcell_repository self) event_id by (store w) = (Inl e, db')"
  then show "delete_by_event_id self event_id by w =
          (Inl e, w\<lparr>store := db',
                     log := log w @ [Info ''Deleting MemCell by event_id'',
                                     Error ''Failed to delete MemCell by event_id'' e]\<rparr>)"
    by (simp add: delete_by_event_id_def logger_def Let_def)
next
  assume "repo_delete_by_user_id (memcell_repository self) user_id by (store w) = (Inl e, db')"
  then show "delete_by_user_id self user_id by w =
          (Inl e, w\<lparr>store := db',
                     log := log w @ [Info ''Deleting MemCells by user_id'',
                                     Error ''Failed to delete MemCells by user_id'' e]\<rparr>)"
    by (simp add: delete_by_user_id_def logger_def Let_def)
next
  assume "coll_update_many (memcell_collection self)
          [(''group_id'', VStr group_id), (''deleted_at'', VNone)]
          [(''$set'', VDict [(''deleted_at'', VTime now),
                              (''deleted_by'', opt_val by),
                              (''deleted_id'', VInt (timestamp_us_of self now))])] (store w)
        = (Inl e, db')"
  then show "delete_by_group_id self now group_id by w =
          (Inl e, w\<lparr>store := db',
                     heap := heap w @ [[(''group_id'', VStr group_id)],
                                       [(''group_id'', VStr group_id), (''deleted_at'', VNone)]],
                     log := log w @ [Info ''Deleting MemCells by group_id'',
                                     Error ''Failed to delete MemCells by group_id'' e]\<rparr>)"
    by (simp add: delete_by_group_id_def memcell_delete_many_eq logger_def Let_def
        dict_contains_def delete_set_def)
next
  assume a: "build_criteria self ev_id user_id' group_id' = Inr (fd, used) \<and> fd \<noteq> []
        \<and> coll_update_many (memcell_collection self) (fd @ [(''deleted_at'', VNone)])
             [(''$set'', VDict [(''deleted_at'', VTime now),
                                 (''deleted_by'', VNone),
                                 (''deleted_id'', VInt (timestamp_us_of self now))])] (store w)
           = (Inl e, db')"
  then have nc: "\<not> dict_contains fd ''deleted_at''"
    using build_criteria_keys by blast
  from a nc show "delete_by_combined_criteria self now ev_id user_id' group_id' w =
          (Inl e, w\<lparr>store := db',
                     heap := heap w @ [fd, fd @ [(''deleted_at'', VNone)]],
                     log := log w @ [Info ''Deleting MemCells with combined criteria'',
                                     Error ''Failed to delete MemCells with combined criteria'' e]\<rparr>)"
    by (simp add: delete_by_combined_criteria_def memcell_delete_many_eq logger_def Let_def
        delete_set_def opt_val_def)
qed

text \<open>
  A service whose repository and collection raise \<open>ServerSelectionTimeoutError\<close> on every
  call: each of the four methods raises it.
\<close>

theorem service_reraises_witness:
  "delete_by_event_id sample_service ''507f1f77bcf86cd799439011'' (Some ''admin'') sample_world =
     (Inl ''ServerSelectionTimeoutError'',
      sample_world\<lparr>store := sample_store,
                   log := log sample_world @ [Info ''Deleting MemCell by event_id'',
                           Error ''Failed to delete MemCell by event_id''
                             ''ServerSelectionTimeoutError'']\<rparr>)
   \<and> delete_by_user_id sample_service ''user_123'' (Some ''admin'') sample_world =
     (Inl ''ServerSelectionTimeoutError'',
      sample_world\<lparr>store := sample_store,
                   log := log sample_world @ [Info ''Deleting MemCells by user_id'',
                           Error ''Failed to delete MemCells by user_id''
                             ''ServerSelectionTimeoutError'']\<rparr>)
   \<and> delete_by_group_id sample_service 9 ''group_456'' (Some ''admin'') sample_world =
     (Inl ''ServerSelectionTimeoutError'',
      sample_world\<lparr>store := sample_store,
                   heap := heap sample_world @
                           [[(''group_id'', VStr ''group_456'')],
                            [(''group_id'', VStr ''group_456''), (''deleted_at'', VNone)]],
                   log := log sample_world @ [Info ''Deleting MemCells by group_id'',
                           Error ''Failed to delete MemCells by group_id''
                             ''ServerSelectionTimeoutError'']\<rparr>)
   \<and> delete_by_combined_criteria sample_service 9 None (Some ''user_123'') (Some ''group_456'')
       sample_world =
     (Inl ''ServerSelectionTimeoutError'',
      sample_world\<lparr>store := sample_store,
                   heap := heap sample_world @
                           [[(''user_id'', VStr ''user_123''), (''group_id'', VStr ''group_456'')],
                            [(''user_id'', VStr ''user_123''), (''group_id'', VStr ''group_456'')]
                              @ [(''deleted_at'', VNone)]],
                   log := log sample_world @ [Info ''Deleting MemCells with combined criteria'',
                           Error ''Failed to delete MemCells with combined criteria''
                             ''ServerSelectionTimeoutError'']\<rparr>)"
proof -
  let ?fd = "[(''user_id'', VStr ''user_123''), (''group_id'', VStr ''group_456'')] :: int dict"
  note t = service_reraises
    [of sample_service "''507f1f77bcf86cd799439011''" "Some ''admin''" sample_world
        "''ServerSelectionTimeoutError''" sample_store "''user_123''" "''group_456''" 9
        None "Some ''user_123''" "Some ''group_456''" ?fd "[''user_id'', ''group_id'']"]
  have st: "store sample_world = sample_store"
    by (simp add: sample_world_def)
  have h1: "repo_delete_by_event_id (memcell_repository sample_service)
      ''507f1f77bcf86cd799439011'' (Some ''admin'') (store sample_world) =
      (Inl ''ServerSelectionTimeoutError'', sample_store)"
    by (simp add: sample_service_def st)
  have h2: "repo_delete_by_user_id (memcell_repository sample_service)
      ''user_123'' (Some ''admin'') (store sample_world) =
      (Inl ''ServerSelectionTimeoutError'', sample_store)"
    by (simp add: sample_service_def st)
  have h3: "coll_update_many (memcell_collection sample_service)
          [(''group_id'', VStr ''group_456''), (''deleted_at'', VNone)]
          [(''$set'', VDict [(''deleted_at'', VTime 9),
                              (''deleted_by'', opt_val (Some ''admin'')),
                              (''deleted_id'', VInt (timestamp_us_of sample_service 9))])]
          (store sample_world)
        = (Inl ''ServerSelectionTimeoutError'', sample_store)"
    by (simp add: sample_service_def failing_coll_def st)
  have h4: "build_criteria sample_service None (Some ''user_123'') (Some ''group_456'')
        = Inr (?fd, [''user_id'', ''group_id'']) \<and> ?fd \<noteq> []
        \<and> coll_update_many (memcell_collection sample_service) (?fd @ [(''deleted_at'', VNone)])
             [(''$set'', VDict [(''deleted_at'', VTime 9),
                                 (''deleted_by'', VNone),
                                 (''deleted_id'', VInt (timestamp_us_of sample_service 9))])]
             (store sample_world)
           = (Inl ''ServerSelectionTimeoutError'', sample_store)"
    by (simp add: sample_service_def failing_coll_def st build_criteria_def given_def dict_set_def)
  note c1 = mp [OF conjunct1 [OF conjunct2 [OF t]] h1]
  note c2 = mp [OF conjunct1 [OF conjunct2 [OF conjunct2 [OF conjunct2 [OF t]]]] h2]
  note c3 = mp [OF conjunct1 [OF conjunct2 [OF conjunct2 [OF conjunct2 [OF conjunct2 [OF t]]]]] h3]
  note c4 = mp [OF conjunct2 [OF conjunct2 [OF conjunct2 [OF conjunct2 [OF conjunct2 [OF t]]]]] h4]
  from c1 c2 c3 c4 show ?thesis
    by (intro conjI)
qed

section \<open>Properties of the datetime converters\<close>

text \<open>
  Claim C7, as stated, fails: not every value of a supported type is converted. A
  non-empty string that \<open>datetime.fromisoformat\<close> rejects raises \<open>ValueError\<close>.
\<close>

theorem to_iso_format_invalid_string_counterexample:
  "to_iso_format sample_lib (TStr Exact ''hello'') = Inl ValueError"
  by (simp add: to_iso_format_def sample_lib_def z_suffix_def)

text \<open>
  Claim C7, amended. \<open>to_iso_format\<close> returns \<open>None\<close> for \<open>None\<close> and for the empty string; it
  raises \<open>ValueError\<close> for an \<open>int\<close> or \<open>float\<close> that is not positive; it raises \<open>TypeError\<close>
  for every value whose type is not exactly \<open>datetime\<close>, \<open>int\<close>, \<open>float\<close> or \<open>str\<close>, which
  includes \<open>bool\<close> and the subclasses of the four. For every other value that the
  datetime library accepts (a string that \<open>fromisoformat\<close> parses once a final \<open>Z\<close> is
  rewritten, a positive number that \<open>fromtimestamp\<close> takes, as seconds or from \<open>1e12\<close> as
  milliseconds, and a conversion into the configured zone that succeeds) the result is
  the ISO string of the datetime in the configured zone, a naive datetime first getting
  that zone attached unchanged. What the library rejects raises: \<open>ValueError\<close> for a
  string that does not parse, the library's exception for a number or a conversion
  into the zone that is out of range.
\<close>

theorem to_iso_format_dispatch:
  "to_iso_format lib TNone = Inr None
   \<and> to_iso_format lib (TStr Exact []) = Inr None
   \<and> (i \<le> 0 \<longrightarrow> to_iso_format lib (TInt Exact i) = Inl ValueError)
   \<and> (float_le_zero lib x \<longrightarrow> to_iso_format lib (TFloat Exact x) = Inl ValueError)
   \<and> to_iso_format lib (TBool b) = Inl TypeError
   \<and> to_iso_format lib (TStr Subclass s) = Inl TypeError
   \<and> to_iso_format lib (TInt Subclass i) = Inl TypeError
   \<and> to_iso_format lib (TFloat Subclass x) = Inl TypeError
   \<and> to_iso_format lib (TDatetime Subclass dt) = Inl TypeError
   \<and> to_iso_format lib (TOther other) = Inl TypeError
   \<and> (s \<noteq> [] \<and> fromisoformat lib (z_suffix s) = Some dt
        \<and> astimezone lib (ensure_timezone lib dt) = Inr local \<longrightarrow>
        to_iso_format lib (TStr Exact s) = Inr (Some (isoformat lib local)))
   \<and> (0 < i \<and> from_timestamp lib (NInt i) = Inr dt
        \<and> astimezone lib (ensure_timezone lib dt) = Inr local \<longrightarrow>
        to_iso_format lib (TInt Exact i) = Inr (Some (isoformat lib local)))
   \<and> (\<not> float_le_zero lib x \<and> from_timestamp lib (NFloat x) = Inr dt
        \<and> astimezone lib (ensure_timezone lib dt) = Inr local \<longrightarrow>
        to_iso_format lib (TFloat Exact x) = Inr (Some (isoformat lib local)))
   \<and> (astimezone lib (ensure_timezone lib dt) = Inr local \<longrightarrow>
        to_iso_format lib (TDatetime Exact dt) = Inr (Some (isoformat lib local)))
   \<and> (tzinfo_is_none lib dt \<longrightarrow> ensure_timezone lib dt = replace_tzinfo lib dt)
   \<and> (\<not> tzinfo_is_none lib dt \<longrightarrow> ensure_timezone lib dt = dt)
   \<and> (s \<noteq> [] \<and> fromisoformat lib (z_suffix s) = None \<longrightarrow>
        to_iso_format lib (TStr Exact s) = Inl ValueError)
   \<and> (0 < i \<and> from_timestamp lib (NInt i) = Inl e \<longrightarrow>
        to_iso_format lib (TInt Exact i) = Inl e)
   \<and> (\<not> float_le_zero lib x \<and> from_timestamp lib (NFloat x) = Inl e \<longrightarrow>
        to_iso_format lib (TFloat Exact x) = Inl e)
   \<and> (astimezone lib (ensure_timezone lib dt) = Inl e \<longrightarrow>
        to_iso_format lib (TDatetime Exact dt) = Inl e)
   \<and> (s \<noteq> [] \<and> fromisoformat lib (z_suffix s) = Some dt
        \<and> astimezone lib (ensure_timezone lib dt) = Inl e \<longrightarrow>
        to_iso_format lib (TStr Exact s) = Inl e)
   \<and> (0 < i \<and> from_timestamp lib (NInt i) = Inr dt
        \<and> astimezone lib (ensure_timezone lib dt) = Inl e \<longrightarrow>
        to_iso_format lib (TInt Exact i) = Inl e)
   \<and> (\<not> float_le_zero lib x \<and> from_timestamp lib (NFloat x) = Inr dt
        \<and> astimezone lib (ensure_timezone lib dt) = Inl e \<longrightarrow>
        to_iso_format lib (TFloat Exact x) = Inl e)"
  by (simp add: to_iso_format_def ensure_timezone_def)

text \<open>The statement on the sample library, one value for each case.\<close>

theorem to_iso_format_dispatch_witness:
  "to_iso_format sample_lib (TInt Exact (- 5)) = Inl ValueError
   \<and> to_iso_format sample_lib (TFloat Exact 0) = Inl ValueError
   \<and> to_iso_format sample_lib (TStr Exact ''2025-09-16T12:20:06Z'')
       = Inr (Some ''2025-09-16T20:20:06+08:00'')
   \<and> to_iso_format sample_lib (TStr Exact ''2025-09-16T20:20:06'')
       = Inr (Some ''2025-09-16T20:20:06+08:00'')
   \<and> to_iso_format sample_lib (TInt Exact 1758025206000)
       = Inr (Some ''2025-09-16T20:20:06+08:00'')
   \<and> to_iso_format sample_lib (TFloat Exact 1758025206)
       = Inr (Some ''2025-09-16T20:20:06+08:00'')
   \<and> to_iso_format sample_lib (TDatetime Exact (1758054006, False))
       = Inr (Some ''2025-09-16T20:20:06+08:00'')
   \<and> ensure_timezone sample_lib (1758054006, False) = (1758025206, True)
   \<and> ensure_timezone sample_lib (1758025206, True) = (1758025206, True)
   \<and> to_iso_format sample_lib (TStr Exact ''16/09/2025'') = Inl ValueError
   \<and> to_iso_format sample_lib (TInt Exact 253402300800) = Inl ValueError
   \<and> to_iso_format sample_lib (TFloat Exact 253402300800) = Inl ValueError
   \<and> to_iso_format sample_lib (TDatetime Exact (253402300000, True)) = Inl OverflowError
   \<and> to_iso_format sample_lib (TInt Exact 253402300000) = Inl OverflowError
   \<and> to_iso_format sample_lib (TFloat Exact 253402300000) = Inl OverflowError"
proof -
  have lib: "float_le_zero sample_lib 0" "\<not> float_le_zero sample_lib 1758025206"
    "\<not> float_le_zero sample_lib 253402300800"
    "tzinfo_is_none sample_lib (1758054006, False)"
    "\<not> tzinfo_is_none sample_lib (1758025206, True)"
    "replace_tzinfo sample_lib (1758054006, False) = (1758025206, True)"
    "fromisoformat sample_lib (z_suffix ''2025-09-16T12:20:06Z'') = Some (1758025206, True)"
    "fromisoformat sample_lib (z_suffix ''2025-09-16T20:20:06'') = Some (1758054006, False)"
    "fromisoformat sample_lib (z_suffix ''16/09/2025'') = None"
    "from_timestamp sample_lib (NInt 1758025206000) = Inr (1758025206, True)"
    "from_timestamp sample_lib (NFloat 1758025206) = Inr (1758025206, True)"
    "from_timestamp sample_lib (NInt 253402300800) = Inl ValueError"
    "from_timestamp sample_lib (NFloat 253402300800) = Inl ValueError"
    "astimezone sample_lib (1758025206, True) = Inr (1758025206, True)"
    "astimezone sample_lib (253402300000, True) = Inl OverflowError"
    "\<not> float_le_zero sample_lib 253402300000"
    "from_timestamp sample_lib (NInt 253402300000) = Inr (253402300000, True)"
    "from_timestamp sample_lib (NFloat 253402300000) = Inr (253402300000, True)"
    "isoformat sample_lib (1758025206, True) = ''2025-09-16T20:20:06+08:00''"
    by (simp_all add: sample_lib_def z_suffix_def from_timestamp_def)
  note a = to_iso_format_dispatch
    [of sample_lib "- 5" 0 True "''2025-09-16T12:20:06Z''" "(1758025206, True)" "()"
        "(1758025206, True)" ValueError]
  note b = to_iso_format_dispatch
    [of sample_lib 1758025206000 1758025206 True "''2025-09-16T20:20:06''" "(1758054006, False)"
        "()" "(1758025206, True)" ValueError]
  note c = to_iso_format_dispatch
    [of sample_lib 253402300800 253402300800 True "''16/09/2025''" "(253402300000, True)"
        "()" "(1758025206, True)" ValueError]
  note d = to_iso_format_dispatch
    [of sample_lib 1758025206000 1758025206 True "''2025-09-16T20:20:06''" "(1758025206, True)"
        "()" "(1758025206, True)" OverflowError]
  note e = to_iso_format_dispatch
    [of sample_lib 1758025206000 1758025206 True "''2025-09-16T20:20:06''"
        "(253402300000, True)" "()" "(1758025206, True)" OverflowError]
  note f = to_iso_format_dispatch
    [of sample_lib 253402300000 253402300000 True "''2025-09-16T20:20:06''"
        "(253402300000, True)" "()" "(1758025206, True)" OverflowError]
  have en1: "ensure_timezone sample_lib (1758054006, False) = (1758025206, True)"
    using a b lib by simp
  have en2: "ensure_timezone sample_lib (1758025206, True) = (1758025206, True)"
    using d lib by simp
  have en3: "ensure_timezone sample_lib (253402300000, True) = (253402300000, True)"
    by (simp add: ensure_timezone_def sample_lib_def)
  have "to_iso_format sample_lib (TInt Exact (- 5)) = Inl ValueError"
    using a by simp
  moreover have "to_iso_format sample_lib (TFloat Exact 0) = Inl ValueError"
    using a lib by simp
  moreover have "to_iso_format sample_lib (TStr Exact ''2025-09-16T12:20:06Z'')
       = Inr (Some ''2025-09-16T20:20:06+08:00'')"
    using a lib en2 by simp
  moreover have "to_iso_format sample_lib (TStr Exact ''2025-09-16T20:20:06'')
       = Inr (Some ''2025-09-16T20:20:06+08:00'')"
    using b lib en1 by simp
  moreover have "to_iso_format sample_lib (TInt Exact 1758025206000)
       = Inr (Some ''2025-09-16T20:20:06+08:00'')"
    using d lib en2 by simp
  moreover have "to_iso_format sample_lib (TFloat Exact 1758025206)
       = Inr (Some ''2025-09-16T20:20:06+08:00'')"
    using d lib en2 by simp
  moreover have "to_iso_format sample_lib (TDatetime Exact (1758054006, False))
       = Inr (Some ''2025-09-16T20:20:06+08:00'')"
    using b lib en1 by simp
  moreover have "to_iso_format sample_lib (TStr Exact ''16/09/2025'') = Inl ValueError"
    using c lib by simp
  moreover have "to_iso_format sample_lib (TInt Exact 253402300800) = Inl ValueError"
    using c lib by simp
  moreover have "to_iso_format sample_lib (TFloat Exact 253402300800) = Inl ValueError"
    using c lib by simp
  moreover have "to_iso_format sample_lib (TDatetime Exact (253402300000, True)) = Inl OverflowError"
    using e lib en3 by simp
  moreover have "to_iso_format sample_lib (TInt Exact 253402300000) = Inl OverflowError"
    using f lib en3 by simp
  moreover have "to_iso_format sample_lib (TFloat Exact 253402300000) = Inl OverflowError"
    using f lib en3 by simp
  ultimately show ?thesis
    using en1 en2 by (intro conjI)
qed

text \<open>
  What \<open>to_timestamp_ms_universal\<close> computes, case by case: 0 for \<open>None\<close>; an integer from
  \<open>10 ^ 12\<close> on as it is and a smaller one times 1000; a float likewise, truncated, and 0
  when the truncation raises; a string as the float it parses to; a datetime as its
  timestamp in milliseconds; any other object as its string form, and 0 when \<open>str\<close>
  raises.
\<close>

lemma to_timestamp_ms_universal_cases:
  "to_timestamp_ms_universal lib now TNone = 0
   \<and> to_timestamp_ms_universal lib now (TInt c i) = (if 10 ^ 12 \<le> i then i else i * 1000)
   \<and> to_timestamp_ms_universal lib now (TFloat c x) =
       (case int_of_float lib (if float_ge_1e12 lib x then x else float_mul lib x 1000) of
          Inl e \<Rightarrow> 0 | Inr n \<Rightarrow> n)
   \<and> (float_of_str lib s = Some x \<longrightarrow>
        to_timestamp_ms_universal lib now (TStr c s) =
        to_timestamp_ms_universal lib now (TFloat Exact x))
   \<and> (float_of_str lib s = None \<and> fromisoformat lib (z_suffix s) = Some dt
        \<and> astimezone lib (ensure_timezone lib dt) = Inr local \<longrightarrow>
        to_timestamp_ms_universal lib now (TStr c s) =
        (case to_timestamp_ms lib local of Inl e \<Rightarrow> 0 | Inr n \<Rightarrow> n))
   \<and> to_timestamp_ms_universal lib now (TDatetime c dt) =
       (case to_timestamp_ms lib dt of Inl e \<Rightarrow> 0 | Inr n \<Rightarrow> n)
   \<and> (py_str lib (TOther other) = Inr s \<longrightarrow>
        to_timestamp_ms_universal lib now (TOther other) =
        to_timestamp_ms_universal lib now (TStr Exact s))
   \<and> (py_str lib (TOther other) = Inl e \<longrightarrow>
        to_timestamp_ms_universal lib now (TOther other) = 0)"
  by (simp add: from_iso_format_def)

text \<open>
  Claim C10 does not hold of the code: a string that is neither a number nor an ISO
  datetime is a conversion failure, and the result is then not 0. \<open>from_iso_format\<close>
  catches the parse error and answers with the current time, so
  \<open>to_timestamp_ms_universal\<close> returns the current time in milliseconds.
\<close>

theorem to_timestamp_ms_universal_unparsable:
  "float_of_str lib s = None \<and> fromisoformat lib (z_suffix s) = None \<longrightarrow>
     from_iso_format lib now (TStr c s) = now
     \<and> to_timestamp_ms_universal lib now (TStr c s) =
         (case to_timestamp_ms lib now of Inl e \<Rightarrow> 0 | Inr n \<Rightarrow> n)"
  by (simp add: from_iso_format_def)

text \<open>On the sample library, with the clock at 1762250000 seconds.\<close>

theorem to_timestamp_ms_universal_unparsable_witness:
  "float_of_str sample_lib ''not-a-date'' = None
   \<and> fromisoformat sample_lib (z_suffix ''not-a-date'') = None
   \<and> to_timestamp_ms sample_lib sample_now = Inr 1762250000000
   \<and> to_timestamp_ms_universal sample_lib sample_now (TStr Exact ''not-a-date'') = 1762250000000"
proof -
  have h: "float_of_str sample_lib ''not-a-date'' = None
      \<and> fromisoformat sample_lib (z_suffix ''not-a-date'') = None"
    by (simp add: sample_lib_def z_suffix_def)
  have t: "to_timestamp_ms sample_lib sample_now = Inr 1762250000000"
    by (simp add: to_timestamp_ms_def sample_lib_def sample_now_def)
  have "to_timestamp_ms_universal sample_lib sample_now (TStr Exact ''not-a-date'') =
      (case to_timestamp_ms sample_lib sample_now of Inl e \<Rightarrow> 0 | Inr n \<Rightarrow> n)"
    using conjunct2 [OF mp [OF to_timestamp_ms_universal_unparsable
      [of sample_lib "''not-a-date''" sample_now Exact] h]] .
  then have "to_timestamp_ms_universal sample_lib sample_now (TStr Exact ''not-a-date'')
      = 1762250000000"
    by (simp add: t)
  with h t show ?thesis by simp
qed

section \<open>Properties of the request log listener\<close>

text \<open>
  When the body is absent, empty, not JSON, a falsy JSON value or a JSON object, the
  listener does what it is meant to: a saved document comes from a memories request, its
  \<open>group_id\<close>, \<open>user_id\<close> and \<open>request_id\<close> are the extracted ones, with \<open>request_id\<close> falling back
  to the event's \<open>event_id\<close> and then to \<open>unknown\<close>; a memories request with a group id is
  saved; other requests are skipped. For an object body the group id is the body's when
  that is truthy and the query string's otherwise, and the user id is the body's
  \<open>user_id\<close>, else its \<open>sender\<close>, else the query string's, else the header's.
\<close>

lemma extract_group_id_raises:
  "truthy lib v \<Longrightarrow> (\<forall>kvs. v \<noteq> JObj kvs) \<Longrightarrow>
   extract_group_id lib url (Some v) = Inl AttributeError"
  by (cases v) (simp_all add: extract_group_id_def body_get_def)

lemma extract_group_id_returns:
  "extract_group_id lib url bp = Inr x \<Longrightarrow>
   bp = None \<or> (\<exists>b. bp = Some b \<and> (\<not> truthy lib b \<or> (\<exists>kvs. b = JObj kvs)))"
  by (cases bp) (auto simp: extract_group_id_def body_get_def split: json.splits if_splits)

lemma extract_user_id_returns:
  "bp = None \<or> (\<exists>b. bp = Some b \<and> (\<not> truthy lib b \<or> (\<exists>kvs. b = JObj kvs))) \<Longrightarrow>
   \<exists>u. extract_user_id lib url bp hdrs = Inr u"
  by (auto simp: extract_user_id_def body_get_def Let_def split: option.splits)

lemma on_event_saved:
  "on_event lib extract_message_core_fields save (RequestHistoryEvent ev) = Saved r \<Longrightarrow>
     is_memories_request lib (ev_url ev)
     \<and> parse_body lib (ev_body ev) = Inr (log_raw_input r)
     \<and> extract_group_id lib (ev_url ev) (log_raw_input r) = Inr (Some (log_group_id r))
     \<and> extract_user_id lib (ev_url ev) (log_raw_input r) (ev_headers ev)
         = Inr (log_user_id r)
     \<and> log_request_id r =
         (case extract_request_id (ev_headers ev) of
            Some x \<Rightarrow> if x \<noteq> [] then x
                      else (case ev_event_id ev of
                              Some y \<Rightarrow> if y \<noteq> [] then y else ''unknown''
                            | None \<Rightarrow> ''unknown'')
          | None \<Rightarrow> (case ev_event_id ev of
                       Some y \<Rightarrow> if y \<noteq> [] then y else ''unknown''
                     | None \<Rightarrow> ''unknown''))
     \<and> save r = None"
  by (auto simp: on_event_def save_to_mongo_def Let_def py_or_def extract_tenant_from_headers_def
      split: if_splits sum.splits option.splits)

lemma on_event_saves:
  assumes "is_memories_request lib (ev_url ev)"
    and "parse_body lib (ev_body ev) = Inr bp"
    and "extract_group_id lib (ev_url ev) bp = Inr (Some g)"
    and "g \<noteq> []"
    and "extract_message_core_fields bp = Inr m"
    and "\<And>r. save r = None"
  shows "\<exists>r. on_event lib extract_message_core_fields save (RequestHistoryEvent ev) = Saved r
           \<and> log_group_id r = g"
proof -
  obtain u where "extract_user_id lib (ev_url ev) bp (ev_headers ev) = Inr u"
    using extract_user_id_returns [OF extract_group_id_returns [OF assms(3)]] by blast
  with assms show ?thesis
    by (simp add: on_event_def save_to_mongo_def Let_def py_or_def split: prod.splits)
qed

lemma on_event_skips:
  assumes "\<not> is_memories_request lib (ev_url ev)
     \<or> (parse_body lib (ev_body ev) = Inr bp
        \<and> extract_group_id lib (ev_url ev) bp = Inr None
        \<and> extract_message_core_fields bp = Inr m)"
  shows "on_event lib extract_message_core_fields save (RequestHistoryEvent ev) = Skipped"
proof (cases "is_memories_request lib (ev_url ev)")
  case False
  then show ?thesis by (simp add: on_event_def)
next
  case True
  with assms have b: "parse_body lib (ev_body ev) = Inr bp"
    and g: "extract_group_id lib (ev_url ev) bp = Inr None"
    and m: "extract_message_core_fields bp = Inr m"
    by blast+
  obtain u where "extract_user_id lib (ev_url ev) bp (ev_headers ev) = Inr u"
    using extract_user_id_returns [OF extract_group_id_returns [OF g]] by blast
  with True b g m show ?thesis
    by (simp add: on_event_def save_to_mongo_def Let_def py_or_def split: prod.splits)
qed

text \<open>
  An exception of the JSON decoder other than \<open>JSONDecodeError\<close> and \<open>TypeError\<close> is not
  caught by \<open>_parse_body\<close>; the listener catches it and saves nothing.
\<close>

lemma on_event_decoder_raises:
  "is_memories_request lib (ev_url ev) \<Longrightarrow> ev_body ev = Some b \<Longrightarrow> b \<noteq> [] \<Longrightarrow>
   json_loads lib b = Inl e \<Longrightarrow> e \<noteq> JSONDecodeError \<Longrightarrow> e \<noteq> TypeError \<Longrightarrow>
   on_event lib extract_message_core_fields save (RequestHistoryEvent ev) = Failed e"
  by (cases e) (simp_all add: on_event_def save_to_mongo_def parse_body_def)

lemma extract_group_id_object:
  "kvs \<noteq> [] \<Longrightarrow>
   extract_group_id lib url (Some (JObj kvs)) =
     (case map_of kvs ''group_id'' of
        Some g \<Rightarrow> if truthy lib g then Inr (Some (str_of_json lib g))
                  else extract_group_id lib url None
      | None \<Rightarrow> extract_group_id lib url None)"
  by (simp add: extract_group_id_def body_get_def truthy_def split: option.splits)

lemma extract_user_id_object:
  "kvs \<noteq> [] \<Longrightarrow>
   extract_user_id lib url (Some (JObj kvs)) hdrs =
     (if (case map_of kvs ''user_id'' of Some u \<Rightarrow> truthy lib u | None \<Rightarrow> False)
      then Inr (Some (str_of_json lib (the (map_of kvs ''user_id''))))
      else if (case map_of kvs ''sender'' of Some u \<Rightarrow> truthy lib u | None \<Rightarrow> False)
      then Inr (Some (str_of_json lib (the (map_of kvs ''sender''))))
      else extract_user_id lib url None hdrs)"
  by (simp add: extract_user_id_def body_get_def truthy_def split: option.splits)

text \<open>
  Claim C6 does not hold of the code. \<open>_parse_body\<close> returns whatever the body decodes to,
  not only a dictionary. When the body of a memories request decodes to a truthy value
  that is not an object (a non-empty array, a non-empty string, a non-zero number,
  \<open>true\<close>), \<open>_extract_group_id\<close> calls \<open>.get\<close> on it and raises \<open>AttributeError\<close>; the listener
  catches it, and no document is saved, whatever group id the query string carries.
\<close>

theorem on_event_non_object_body:
  "is_memories_request lib (ev_url ev) \<and> ev_body ev = Some b \<and> b \<noteq> []
     \<and> json_loads lib b = Inr v \<and> truthy lib v \<and> (\<forall>kvs. v \<noteq> JObj kvs) \<longrightarrow>
   on_event lib extract_message_core_fields save (RequestHistoryEvent ev) = Failed AttributeError"
  by (auto simp: on_event_def save_to_mongo_def parse_body_def extract_group_id_raises)

text \<open>
  The same memories request, with \<open>group_id=g1\<close> in its query string: with the body \<open>[1]\<close>
  it fails, with no body it is saved with that group id.
\<close>

theorem on_event_non_object_body_witness:
  "on_event sample_weblib (\<lambda>b. Inr ()) (\<lambda>r. None) (sample_event (Some ''[1]''))
     = Failed AttributeError
   \<and> on_event sample_weblib (\<lambda>b. Inr ()) (\<lambda>r. None) (sample_event None)
     = Saved \<lparr> log_group_id = ''g1'', log_request_id = ''evt-1'', log_user_id = Some ''u9'',
               log_message_fields = (), log_raw_input = None, log_raw_input_str = None,
               log_version = None, log_endpoint_name = None, log_method = Some ''POST'',
               log_url = ''/api/v1/memories?group_id=g1'', log_organization_id = None,
               log_space_id = None, log_event_id = Some ''evt-1'' \<rparr>"
proof -
  let ?ev = "\<lparr> ev_url = ''/api/v1/memories?group_id=g1'', ev_body = Some ''[1]'',
         ev_headers = [(''X-User-Id'', ''u9'')], ev_event_id = Some ''evt-1'',
         ev_version = None, ev_endpoint_name = None, ev_method = Some ''POST'' \<rparr>"
  have url: "urlparse sample_weblib ''/api/v1/memories?group_id=g1''
      = Some (''/api/v1/memories'', ''group_id=g1'')"
    by (simp add: sample_weblib_def)
  have h: "is_memories_request sample_weblib (ev_url ?ev) \<and> ev_body ?ev = Some ''[1]''
      \<and> ''[1]'' \<noteq> [] \<and> json_loads sample_weblib ''[1]'' = Inr (JArr [JNum 1])
      \<and> truthy sample_weblib (JArr [JNum 1]) \<and> (\<forall>kvs. JArr [JNum (1::int)] \<noteq> JObj kvs)"
    by (simp add: is_memories_request_def url MEMORIES_PATH_PREFIX_def truthy_def)
       (simp add: sample_weblib_def)
  have a: "on_event sample_weblib (\<lambda>b. Inr ()) (\<lambda>r. None) (sample_event (Some ''[1]''))
     = Failed AttributeError"
    using mp [OF on_event_non_object_body
      [of sample_weblib ?ev "''[1]''" "JArr [JNum 1]" "\<lambda>b. Inr ()" "\<lambda>r. None"] h]
    by (simp add: sample_event_def)
  have q: "parse_qs sample_weblib ''group_id=g1'' = Some [(''group_id'', [''g1''])]"
    by (simp add: sample_weblib_def)
  have b: "on_event sample_weblib (\<lambda>b. Inr ()) (\<lambda>r. None) (sample_event None)
     = Saved \<lparr> log_group_id = ''g1'', log_request_id = ''evt-1'', log_user_id = Some ''u9'',
               log_message_fields = (), log_raw_input = None, log_raw_input_str = None,
               log_version = None, log_endpoint_name = None, log_method = Some ''POST'',
               log_url = ''/api/v1/memories?group_id=g1'', log_organization_id = None,
               log_space_id = None, log_event_id = Some ''evt-1'' \<rparr>"
    by (simp add: sample_event_def on_event_def is_memories_request_def url
        MEMORIES_PATH_PREFIX_def save_to_mongo_def parse_body_def extract_group_id_def q
        extract_user_id_def extract_request_id_def extract_tenant_from_headers_def py_or_def)
  from a b show ?thesis by (intro conjI)
qed

end
